theory Spec2Isabelle
  imports Main "HOL-Library.Sublist"
begin

section \<open>Messages and exceptions\<close>

text \<open>
  The modules \<^verbatim>\<open>serpentTools.settings.messages\<close> and \<^verbatim>\<open>serpentTools.messages\<close>
  are logging helpers. A call of one of their functions is recorded as a value of
  \<open>msg\<close>; every method of the embedding returns the list of messages it emitted.
  A Python exception is a value of \<open>error\<close>; a method that raises returns \<open>Inl\<close>.
  An exception raised by a \<^verbatim>\<open>raise\<close> statement of the sources carries the message
  the source gives it: \<open>KeyError\<close> and \<open>AttributeError\<close>. \<open>KeyError\<close> is also what a
  dictionary subscript raises, with the missing key. \<open>TypeError\<close>, \<open>ValueError\<close> and
  \<open>IndexError\<close> are raised by the interpreter or by numpy, and \<open>NoneAttributeError\<close> is
  the AttributeError that the interpreter raises for an attribute of \<^verbatim>\<open>None\<close>; the
  wording of these four depends on the version of Python and numpy and is not part of
  the embedding.
\<close>

datatype msg = Debug string | Info string | Warning string | Error string

datatype error =
    KeyError string
  | AttributeError string
  | TypeError
  | ValueError
  | IndexError
  | NoneAttributeError
  | Raised string

text \<open>
  \<^verbatim>\<open>messages.error\<close> of \<^verbatim>\<open>serpentTools.settings.messages\<close> is used in
  \<^verbatim>\<open>containers.py\<close> both as \<^verbatim>\<open>raise messages.error(...)\<close> and as a plain call.
  Its body is not among the sources, so its behaviour is a parameter of the embedding:
  \<open>Raising\<close>: the call itself raises an exception that carries the message (\<open>Raised\<close>);
  \<open>Logging\<close>: the call logs the message at error level and returns \<^verbatim>\<open>None\<close>.
\<close>

datatype error_fn = Raising | Logging

definition messages_error :: "error_fn \<Rightarrow> string \<Rightarrow> msg list \<times> (error + unit)" where
  "messages_error ef s =
     (case ef of Raising \<Rightarrow> ([], Inl (Raised s)) | Logging \<Rightarrow> ([Error s], Inr ()))"

section \<open>\<^verbatim>\<open>objects/containers.py\<close>: HomogUniv\<close>

text \<open>
  The four dictionaries of a universe map variable names to values of any type \<open>'v\<close>;
  \<open>bu\<close>, \<open>step\<close> and \<open>day\<close> are scalars of a type \<open>'n\<close> that no method reads.
\<close>

record ('v, 'n) HomogUniv =
  name :: string
  bu :: 'n
  step :: 'n
  day :: 'n
  b1Exp :: "string \<rightharpoonup> 'v"
  infExp :: "string \<rightharpoonup> 'v"
  b1Unc :: "string \<rightharpoonup> 'v"
  infUnc :: "string \<rightharpoonup> 'v"

text \<open>
  \<^verbatim>\<open>_lookup\<close> returns a reference to one of the four dictionaries (``pointer to the
  proper dictionary''). A reference is the name of the field; \<open>deref\<close> reads through it
  and \<open>setitem\<close> is the assignment \<^verbatim>\<open>setter[key] = value\<close> through it.
\<close>

datatype dictref = InfExp | InfUnc | B1Exp | B1Unc

definition deref :: "('v, 'n) HomogUniv \<Rightarrow> dictref \<Rightarrow> (string \<rightharpoonup> 'v)" where
  "deref u r = (case r of InfExp \<Rightarrow> infExp u | InfUnc \<Rightarrow> infUnc u
                        | B1Exp \<Rightarrow> b1Exp u | B1Unc \<Rightarrow> b1Unc u)"

definition setitem :: "('v, 'n) HomogUniv \<Rightarrow> dictref \<Rightarrow> string \<Rightarrow> 'v \<Rightarrow> ('v, 'n) HomogUniv" where
  "setitem u r k v =
     (case r of InfExp \<Rightarrow> u\<lparr>infExp := (infExp u)(k \<mapsto> v)\<rparr>
              | InfUnc \<Rightarrow> u\<lparr>infUnc := (infUnc u)(k \<mapsto> v)\<rparr>
              | B1Exp \<Rightarrow> u\<lparr>b1Exp := (b1Exp u)(k \<mapsto> v)\<rparr>
              | B1Unc \<Rightarrow> u\<lparr>b1Unc := (b1Unc u)(k \<mapsto> v)\<rparr>)"

text \<open>
  \<^verbatim>\<open>_lookup(variablename, uncertainty)\<close>. Python's \<^verbatim>\<open>"inf" in variablename\<close> is the
  contiguous-substring test \<open>sublist\<close>. When neither marker occurs the method calls
  \<^verbatim>\<open>messages.error\<close> and, if that returns, falls off its end and returns \<^verbatim>\<open>None\<close>.
\<close>

definition lookup :: "error_fn \<Rightarrow> string \<Rightarrow> bool \<Rightarrow> msg list \<times> (error + dictref option)" where
  "lookup ef variablename uncertainty =
     (if sublist ''inf'' variablename then
        (if \<not> uncertainty then ([], Inr (Some InfExp)) else ([], Inr (Some InfUnc)))
      else if sublist ''b1'' variablename then
        (if \<not> uncertainty then ([], Inr (Some B1Exp)) else ([], Inr (Some B1Unc)))
      else (case messages_error ef ''Neither inf, nor b1 in the string'' of
              (ms, Inl e) \<Rightarrow> (ms, Inl e)
            | (ms, Inr _) \<Rightarrow> (ms, Inr None)))"

text \<open>
  The \<^verbatim>\<open>uncertainty\<close> argument is any Python object; the methods test
  \<^verbatim>\<open>isinstance(uncertainty, bool)\<close> first.
\<close>

datatype flag = PyBool bool | NotBool

text \<open>
  \<^verbatim>\<open>raise messages.error("Uncertainty must be a boolean variable")\<close>: when
  \<^verbatim>\<open>messages.error\<close> returns \<^verbatim>\<open>None\<close>, \<^verbatim>\<open>raise None\<close> is a TypeError.
\<close>

definition raise_messages_error :: "error_fn \<Rightarrow> string \<Rightarrow> msg list \<times> error" where
  "raise_messages_error ef s =
     (case messages_error ef s of
        (ms, Inl e) \<Rightarrow> (ms, e)
      | (ms, Inr _) \<Rightarrow> (ms, TypeError))"

text \<open>
  \<^verbatim>\<open>HomogUniv.set(variablename, variablevalue, uncertainty=False)\<close>. The static method
  \<^verbatim>\<open>_SupportingObject._convertVariableName\<close> is not among the sources; it is the
  parameter \<open>conv\<close>. The result is the universe after the call, the messages emitted
  and the outcome. The only assignment is the last statement, so a call that raises
  leaves the universe as it was.
\<close>

definition set_univ ::
  "(string \<Rightarrow> string) \<Rightarrow> error_fn \<Rightarrow> ('v, 'n) HomogUniv \<Rightarrow> string \<Rightarrow> 'v \<Rightarrow> flag
     \<Rightarrow> ('v, 'n) HomogUniv \<times> msg list \<times> (error + unit)" where
  "set_univ conv ef u variablename0 variablevalue uncertainty0 =
     (let variablename = conv variablename0 in
      case uncertainty0 of
        NotBool \<Rightarrow>
          (case raise_messages_error ef ''Uncertainty must be a boolean variable'' of
             (ms, e) \<Rightarrow> (u, ms, Inl e))
      | PyBool uncertainty \<Rightarrow>
          (case lookup ef variablename uncertainty of
             (ms, Inl e) \<Rightarrow> (u, ms, Inl e)
           | (ms, Inr None) \<Rightarrow>
               (u, ms, Inl TypeError)
           | (ms, Inr (Some setter)) \<Rightarrow>
               (let ms' = (if variablename \<in> dom (deref u setter)
                           then ms @ [Warning ''The variable will be overwritten'']
                           else ms)
                in (setitem u setter variablename variablevalue, ms', Inr ()))))"

text \<open>
  \<^verbatim>\<open>HomogUniv.get(variablename, uncertainty=False)\<close> returns one value, or a pair when
  \<^verbatim>\<open>uncertainty\<close> is true. \<^verbatim>\<open>dict.get\<close> returns \<^verbatim>\<open>None\<close> for a missing key: the
  values read are of type \<open>'v option\<close>. The method has no assignment.
\<close>

datatype 'v got = Single "'v option" | Pair "'v option" "'v option"

definition get_univ ::
  "(string \<Rightarrow> string) \<Rightarrow> error_fn \<Rightarrow> ('v, 'n) HomogUniv \<Rightarrow> string \<Rightarrow> flag
     \<Rightarrow> ('v, 'n) HomogUniv \<times> msg list \<times> (error + 'v got)" where
  "get_univ conv ef u variablename0 uncertainty0 =
     (let variablename = conv variablename0 in
      case uncertainty0 of
        NotBool \<Rightarrow>
          (case raise_messages_error ef ''Uncertainty must be a boolean variable'' of
             (ms, e) \<Rightarrow> (u, ms, Inl e))
      | PyBool uncertainty \<Rightarrow>
          (case lookup ef variablename uncertainty of
             (ms, Inl e) \<Rightarrow> (u, ms, Inl e)
           | (ms, Inr None) \<Rightarrow>
               (u, ms, Inl NoneAttributeError)
           | (ms, Inr (Some setter)) \<Rightarrow>
               (let x = deref u setter variablename in
                if \<not> uncertainty then (u, ms, Inr (Single x))
                else (let dx = deref u setter variablename in (u, ms, Inr (Pair x dx))))))"


section \<open>\<^verbatim>\<open>objects/materials.py\<close>: DepletedMaterial\<close>

subsection \<open>Arrays\<close>

text \<open>
  A numpy array of the material data is one-dimensional (\<^verbatim>\<open>addData\<close> on a single
  string) or two-dimensional (\<^verbatim>\<open>addData\<close> on a list of lines, one row per line).
  The element type \<open>'a\<close> stands for the numbers stored; the methods below only compare
  them for equality and print them.
\<close>

datatype 'a ndarray = Vec "'a list" | Mat "'a list list"

text \<open>\<^verbatim>\<open>a.shape\<close>; the column count of a matrix without rows is not represented.\<close>

fun shape :: "'a ndarray \<Rightarrow> nat list" where
  "shape (Vec xs) = [length xs]"
| "shape (Mat rows) = [length rows, (case rows of [] \<Rightarrow> 0 | r # _ \<Rightarrow> length r)]"

text \<open>The elements of an array, as \<^verbatim>\<open>x in a\<close> inspects them: \<^verbatim>\<open>(a == x).any()\<close>.\<close>

fun flat :: "'a ndarray \<Rightarrow> 'a list" where
  "flat (Vec xs) = xs"
| "flat (Mat rows) = concat rows"

text \<open>
  \<^verbatim>\<open>a[indices]\<close> for a list of non-negative integers selects along the first axis:
  elements of a vector, rows of a matrix. An index beyond the axis raises IndexError.
\<close>

definition take_indices :: "'b list \<Rightarrow> nat list \<Rightarrow> error + 'b list" where
  "take_indices xs indices =
     (if list_all (\<lambda>i. i < length xs) indices then Inr (map (\<lambda>i. xs ! i) indices)
      else Inl IndexError)"

definition index_nd :: "'a ndarray \<Rightarrow> nat list \<Rightarrow> error + 'a ndarray" where
  "index_nd a indices =
     (case a of
        Vec xs \<Rightarrow> (case take_indices xs indices of Inl e \<Rightarrow> Inl e | Inr ys \<Rightarrow> Inr (Vec ys))
      | Mat rows \<Rightarrow> (case take_indices rows indices of Inl e \<Rightarrow> Inl e | Inr rs \<Rightarrow> Inr (Mat rs)))"

text \<open>
  \<^verbatim>\<open>a[i, :] = r\<close> (and \<^verbatim>\<open>a[i] = r\<close>) into a row of width \<open>w\<close>: \<open>r\<close> must have \<open>w\<close>
  entries, or one entry, which numpy broadcasts; anything else raises ValueError.
  The result is the row as stored.
\<close>

definition assign_row :: "nat \<Rightarrow> 'a list \<Rightarrow> error + 'a list" where
  "assign_row w r =
     (if length r = w then Inr r
      else if length r = 1 then Inr (replicate w (hd r))
      else Inl ValueError)"

subsection \<open>The material\<close>

text \<open>
  \<^verbatim>\<open>origin\<close> is set by \<^verbatim>\<open>NamedObject.__init__\<close>; \<^verbatim>\<open>zai\<close>, \<^verbatim>\<open>names\<close>, \<^verbatim>\<open>days\<close> and
  \<^verbatim>\<open>depBurnup\<close> come from the metadata of the parser and are \<^verbatim>\<open>None\<close> when the
  parser has none. The caches of the three properties are left out: \<^verbatim>\<open>getValues\<close> and
  its helpers read \<^verbatim>\<open>self.data\<close> directly.
\<close>

record 'a DepletedMaterial =
  name :: string
  origin :: string
  data :: "string \<rightharpoonup> 'a ndarray"
  zai :: "int list option"
  names :: "string list option"
  days :: "'a list option"
  depBurnup :: "'a list option"

text \<open>
  The expression \<^verbatim>\<open>self.days if xUnits == 'days' else self.data[xUnits]\<close>, which opens
  both \<^verbatim>\<open>_checkTimePoints\<close> and \<^verbatim>\<open>_getXSlice\<close>. A missing key raises KeyError;
  \<^verbatim>\<open>self.days\<close> may be \<^verbatim>\<open>None\<close>.
\<close>

definition xaxis :: "'a DepletedMaterial \<Rightarrow> string \<Rightarrow> error + 'a ndarray option" where
  "xaxis m xUnits =
     (if xUnits = ''days'' then Inr (map_option Vec (days m))
      else (case data m xUnits of None \<Rightarrow> Inl (KeyError xUnits) | Some a \<Rightarrow> Inr (Some a)))"

text \<open>
  \<^verbatim>\<open>_checkTimePoints(xUnits, timePoints)\<close>: the printed forms of the requested points
  that are not in the axis. \<open>str\<close> is Python's \<^verbatim>\<open>str\<close> on the numbers. Testing
  membership in \<^verbatim>\<open>None\<close> raises TypeError, at the first point tested.
\<close>

definition checkTimePoints ::
  "('a \<Rightarrow> string) \<Rightarrow> 'a DepletedMaterial \<Rightarrow> string \<Rightarrow> 'a list \<Rightarrow> error + string list" where
  "checkTimePoints str m xUnits timePoints =
     (case xaxis m xUnits of
        Inl e \<Rightarrow> Inl e
      | Inr None \<Rightarrow>
          (if timePoints = [] then Inr []
           else Inl TypeError)
      | Inr (Some valid) \<Rightarrow>
          Inr (map str (filter (\<lambda>time. time \<notin> set (flat valid)) timePoints)))"

text \<open>
  The list comprehension of \<^verbatim>\<open>_getXSlice\<close>:
  \<^verbatim>\<open>[indx for indx, xx in enumerate(allX) if xx in timePoints]\<close>. Over a vector \<open>xx\<close> is a
  number. Over a matrix \<open>xx\<close> is a row, and \<^verbatim>\<open>xx in timePoints\<close> asks for the truth
  value of the array \<^verbatim>\<open>xx == t\<close>: that of its only entry when the row has one entry, a
  ValueError otherwise (numpy before 2.2 answers False, with a warning, for a row without
  entries). An empty \<^verbatim>\<open>timePoints\<close> compares nothing.
\<close>

definition colIndices_of :: "'a ndarray \<Rightarrow> 'a list \<Rightarrow> error + nat list" where
  "colIndices_of allX timePoints =
     (case allX of
        Vec xs \<Rightarrow> Inr (filter (\<lambda>indx. xs ! indx \<in> set timePoints) [0..<length xs])
      | Mat rows \<Rightarrow>
          (if timePoints = [] then Inr []
           else if list_ex (\<lambda>r. length r \<noteq> 1) rows
           then Inl ValueError
           else Inr (filter (\<lambda>indx. hd (rows ! indx) \<in> set timePoints) [0..<length rows])))"

text \<open>
  \<^verbatim>\<open>_getXSlice(xUnits, timePoints)\<close> returns \<^verbatim>\<open>(xVals, colIndices)\<close>; \<^verbatim>\<open>colIndices\<close> is
  \<^verbatim>\<open>None\<close> when no time points are given. Enumerating \<^verbatim>\<open>None\<close> raises TypeError.
\<close>

definition getXSlice ::
  "'a DepletedMaterial \<Rightarrow> string \<Rightarrow> 'a list option
     \<Rightarrow> error + ('a ndarray option \<times> nat list option)" where
  "getXSlice m xUnits timePoints =
     (case xaxis m xUnits of
        Inl e \<Rightarrow> Inl e
      | Inr allX \<Rightarrow>
          (case timePoints of
             None \<Rightarrow> Inr (allX, None)
           | Some tps \<Rightarrow>
               (case allX of
                  None \<Rightarrow> Inl TypeError
                | Some a \<Rightarrow>
                    (case colIndices_of a tps of
                       Inl e \<Rightarrow> Inl e
                     | Inr colIndices \<Rightarrow>
                         (case index_nd a colIndices of
                            Inl e \<Rightarrow> Inl e
                          | Inr xVals \<Rightarrow> Inr (Some xVals, Some colIndices))))))"

text \<open>
  The \<^verbatim>\<open>names\<close> argument of \<^verbatim>\<open>getValues\<close>: \<^verbatim>\<open>None\<close>, one name, or a list of names.
  \<open>truthy\<close> is its truth value in \<^verbatim>\<open>if names\<close> and \<^verbatim>\<open>if not isotopes\<close>.
\<close>

datatype names_arg = NoNames | OneName string | NameList "string list"

fun truthy :: "names_arg \<Rightarrow> bool" where
  "truthy NoNames = False"
| "truthy (OneName s) = (s \<noteq> [])"
| "truthy (NameList l) = (l \<noteq> [])"

text \<open>\<^verbatim>\<open>list.index\<close>: the first position of an element, ValueError when there is none.\<close>

fun index_of :: "'b list \<Rightarrow> 'b \<Rightarrow> nat option" where
  "index_of [] y = None"
| "index_of (x # xs) y = (if x = y then Some 0 else map_option Suc (index_of xs y))"

text \<open>The loop of \<^verbatim>\<open>_getIsoID\<close>; it stops at the first name that is not in the list.\<close>

fun getIsoID_loop :: "string list \<Rightarrow> string list \<Rightarrow> error + nat list" where
  "getIsoID_loop nms [] = Inr []"
| "getIsoID_loop nms (isotope # rest) =
     (case index_of nms isotope of
        None \<Rightarrow> Inl ValueError
      | Some rowId \<Rightarrow>
          (case getIsoID_loop nms rest of
             Inl e \<Rightarrow> Inl e
           | Inr rowIDs \<Rightarrow> Inr (rowId # rowIDs)))"

text \<open>
  \<^verbatim>\<open>_getIsoID(isotopes)\<close>. Without isotopes it needs \<^verbatim>\<open>len(self.names)\<close>, a TypeError
  when the names are \<^verbatim>\<open>None\<close>.
\<close>

definition getIsoID :: "'a DepletedMaterial \<Rightarrow> names_arg \<Rightarrow> error + nat list" where
  "getIsoID m isotopes =
     (if \<not> truthy isotopes then
        (case names m of
           None \<Rightarrow> Inl TypeError
         | Some nms \<Rightarrow> Inr [0..<length nms])
      else
        (let isoList = (case isotopes of OneName s \<Rightarrow> [s] | NameList l \<Rightarrow> l | NoNames \<Rightarrow> [])
         in case names m of
              None \<Rightarrow> Inl NoneAttributeError
            | Some nms \<Rightarrow> getIsoID_loop nms isoList))"

text \<open>
  The loop that fills \<^verbatim>\<open>yVals\<close> row by row: row \<^verbatim>\<open>rowId\<close> of \<^verbatim>\<open>allY\<close>, restricted to
  \<^verbatim>\<open>colIndices\<close> when that list is non-empty, is assigned to a row of width \<open>w\<close>.
\<close>

fun fill_rows ::
  "'a list list \<Rightarrow> nat list option \<Rightarrow> nat \<Rightarrow> nat list \<Rightarrow> error + 'a list list" where
  "fill_rows allY colIndices w [] = Inr []"
| "fill_rows allY colIndices w (rowId # rest) =
     (if length allY \<le> rowId then Inl IndexError
      else
        (case (case colIndices of
                 Some (c # cs) \<Rightarrow> take_indices (allY ! rowId) (c # cs)
               | _ \<Rightarrow> Inr (allY ! rowId)) of
           Inl e \<Rightarrow> Inl e
         | Inr r \<Rightarrow>
             (case assign_row w r of
                Inl e \<Rightarrow> Inl e
              | Inr r' \<Rightarrow>
                  (case fill_rows allY colIndices w rest of
                     Inl e \<Rightarrow> Inl e
                   | Inr rs \<Rightarrow> Inr (r' # rs)))))"

text \<open>
  Lines 154 to 164 of \<^verbatim>\<open>getValues\<close>. The test
  \<^verbatim>\<open>allY.shape[0] == 1 or len(allY.shape) == 1\<close> holds for every vector and for a matrix
  with exactly one row; there \<^verbatim>\<open>allY[colIndices]\<close> selects along the first axis of
  \<^verbatim>\<open>allY\<close>. \<^verbatim>\<open>if colIndices\<close> is false for \<^verbatim>\<open>None\<close> and for the empty list.
\<close>

definition getValues_slice ::
  "'a DepletedMaterial \<Rightarrow> string \<Rightarrow> string \<Rightarrow> 'a list option \<Rightarrow> names_arg
     \<Rightarrow> error + 'a ndarray" where
  "getValues_slice m xUnits yUnits timePoints names0 =
     (case getXSlice m xUnits timePoints of
        Inl e \<Rightarrow> Inl e
      | Inr (xVals, colIndices) \<Rightarrow>
          (case getIsoID m names0 of
             Inl e \<Rightarrow> Inl e
           | Inr rowIndices \<Rightarrow>
               (case data m yUnits of
                  None \<Rightarrow> Inl (KeyError yUnits)
                | Some allY \<Rightarrow>
                    (if hd (shape allY) = 1 \<or> length (shape allY) = 1 then
                       (case colIndices of
                          Some (c # cs) \<Rightarrow> index_nd allY (c # cs)
                        | _ \<Rightarrow> Inr allY)
                     else
                       (case xVals of
                          None \<Rightarrow> Inl TypeError
                        | Some xv \<Rightarrow>
                            (case fill_rows (case allY of Mat rows \<Rightarrow> rows | Vec ys \<Rightarrow> [])
                                    colIndices (hd (shape xv)) rowIndices of
                               Inl e \<Rightarrow> Inl e
                             | Inr yVals \<Rightarrow> Inr (Mat yVals)))))))"

text \<open>\<^verbatim>\<open>', '.join(strings)\<close>.\<close>

fun join :: "string \<Rightarrow> string list \<Rightarrow> string" where
  "join sep [] = []"
| "join sep [s] = s"
| "join sep (s # t # ss) = s @ sep @ join sep (t # ss)"

text \<open>
  Lines 144 to 149 of \<^verbatim>\<open>getValues\<close>: the check of the time points. \<^verbatim>\<open>any\<close> of a
  list of strings is true when one of them is not empty.
\<close>

definition getValues_timeCheck ::
  "('a \<Rightarrow> string) \<Rightarrow> 'a DepletedMaterial \<Rightarrow> string \<Rightarrow> 'a list option \<Rightarrow> error + unit" where
  "getValues_timeCheck str m xUnits timePoints =
     (case timePoints of
        None \<Rightarrow> Inr ()
      | Some tps \<Rightarrow>
          (case checkTimePoints str m xUnits tps of
             Inl e \<Rightarrow> Inl e
           | Inr timeCheck \<Rightarrow>
               (if list_ex (\<lambda>s. s \<noteq> []) timeCheck then
                  Inl (KeyError (''The following times were not present in file '' @ origin m
                                 @ [CHR 0x0A] @ join '', '' timeCheck))
                else Inr ())))"

text \<open>
  \<^verbatim>\<open>getValues(xUnits, yUnits, timePoints=None, names=None)\<close>. The method assigns to no
  attribute of the material: the material after the call, the first component of the
  result, is the material before it.
\<close>

definition getValues ::
  "('a \<Rightarrow> string) \<Rightarrow> 'a DepletedMaterial \<Rightarrow> string \<Rightarrow> string \<Rightarrow> 'a list option \<Rightarrow> names_arg
     \<Rightarrow> 'a DepletedMaterial \<times> (error + 'a ndarray)" where
  "getValues str m xUnits yUnits timePoints names0 =
     (m,
      case getValues_timeCheck str m xUnits timePoints of
        Inl e \<Rightarrow> Inl e
      | Inr _ \<Rightarrow>
          (if truthy names0 \<and> names m = None then
             Inl (AttributeError (''Isotope names not stored on DepletedMaterial ''
                                  @ name m @ ''.''))
           else getValues_slice m xUnits yUnits timePoints names0))"

section \<open>Example data\<close>

definition univ_example :: "(int, int) HomogUniv" where
  "univ_example = \<lparr>HomogUniv.name = ''0'', bu = 0, step = 0, day = 0,
      b1Exp = Map.empty, infExp = [''infKinf'' \<mapsto> 12],
      b1Unc = Map.empty, infUnc = [''infKinf'' \<mapsto> 3]\<rparr>"

text \<open>A universe that holds one variable of each family, with its uncertainty.\<close>

definition univ_two_families :: "(int, int) HomogUniv" where
  "univ_two_families = \<lparr>HomogUniv.name = ''0'', bu = 0, step = 0, day = 0,
      b1Exp = [''b1Nubar'' \<mapsto> 20], infExp = [''infKinf'' \<mapsto> 12],
      b1Unc = [''b1Nubar'' \<mapsto> 4], infUnc = [''infKinf'' \<mapsto> 3]\<rparr>"

text \<open>A stand-in for the name conversion in the examples: it drops underscores.\<close>

definition conv_example :: "string \<Rightarrow> string" where
  "conv_example s = filter (\<lambda>c. c \<noteq> CHR ''_'') s"

text \<open>
  Python's \<^verbatim>\<open>str\<close> on integers, for examples whose numbers are integers.
\<close>

fun str_nat :: "nat \<Rightarrow> string" where
  "str_nat n = (if n < 10 then [''0123456789'' ! n]
                else str_nat (n div 10) @ [''0123456789'' ! (n mod 10)])"

declare str_nat.simps [simp del]

definition str_int :: "int \<Rightarrow> string" where
  "str_int i = (if i < 0 then CHR ''-'' # str_nat (nat (- i)) else str_nat (nat i))"

text \<open>
  A material with three isotopes and three time points, and the same material with a
  single isotope, whose \<^verbatim>\<open>adens\<close> is a matrix with one row.
\<close>

definition mat_example :: "int DepletedMaterial" where
  "mat_example = \<lparr>name = ''fuel'', origin = ''demo_dep.m'',
      data = [''adens'' \<mapsto> Mat [[1, 2, 3], [4, 5, 6], [7, 8, 9]],
              ''burnup'' \<mapsto> Vec [0, 5, 11]],
      zai = Some [541350, 621490, 0],
      names = Some [''Xe135'', ''Sm149'', ''total''],
      days = Some [0, 10, 20], depBurnup = Some [0, 5, 11]\<rparr>"

definition single_row_example :: "int DepletedMaterial" where
  "single_row_example = \<lparr>name = ''fuel'', origin = ''demo_dep.m'',
      data = [''adens'' \<mapsto> Mat [[1, 2, 3]]],
      zai = Some [541350],
      names = Some [''Xe135''],
      days = Some [0, 10, 20], depBurnup = Some [0, 5, 11]\<rparr>"

text \<open>
  The two counts in the words of the specification: the number of isotopes requested
  (all isotopes when the request is empty) and the number of time points requested (all
  points of an axis of length \<open>n\<close> when there is no request).
\<close>

definition numIsotopesRequested :: "'a DepletedMaterial \<Rightarrow> names_arg \<Rightarrow> nat" where
  "numIsotopesRequested m names0 =
     (let allIsotopes = (case names m of None \<Rightarrow> 0 | Some nms \<Rightarrow> length nms) in
      case names0 of
        NoNames \<Rightarrow> allIsotopes
      | OneName s \<Rightarrow> (if s = [] then allIsotopes else 1)
      | NameList l \<Rightarrow> (if l = [] then allIsotopes else length l))"

definition numTimePointsRequested :: "nat \<Rightarrow> 'a list option \<Rightarrow> nat" where
  "numTimePointsRequested n timePoints =
     (case timePoints of None \<Rightarrow> n | Some tps \<Rightarrow> length tps)"

text \<open>Whether an outcome is an exception of the class AttributeError.\<close>

fun is_AttributeError :: "error + 'b \<Rightarrow> bool" where
  "is_AttributeError (Inl (AttributeError s)) = True"
| "is_AttributeError (Inl NoneAttributeError) = True"
| "is_AttributeError r = False"

section \<open>\<^verbatim>\<open>parsers/detector.py\<close>: DetectorReader\<close>

subsection \<open>Strings and dictionaries\<close>

text \<open>
  \<^verbatim>\<open>line.split()\<close> splits at runs of whitespace and returns no empty string. The
  characters of \<open>string\<close> are bytes; \<open>isspace\<close> lists the ASCII characters that Python
  counts as whitespace.
\<close>

definition isspace :: "char \<Rightarrow> bool" where
  "isspace c = (c \<in> set [CHR '' '', CHR 0x09, CHR 0x0A, CHR 0x0B, CHR 0x0C, CHR 0x0D,
                           CHR 0x1C, CHR 0x1D, CHR 0x1E, CHR 0x1F])"

fun split_from :: "string \<Rightarrow> string \<Rightarrow> string list" where
  "split_from cur [] = (if cur = [] then [] else [cur])"
| "split_from cur (c # cs) =
     (if isspace c then (if cur = [] then split_from [] cs else cur # split_from [] cs)
      else split_from (cur @ [c]) cs)"

definition split_ws :: "string \<Rightarrow> string list" where
  "split_ws line = split_from [] line"

text \<open>
  A dictionary whose length is taken is a list of pairs with distinct keys, in the
  order of insertion; \<^verbatim>\<open>d[k] = v\<close> replaces the value of \<open>k\<close> or appends the pair.
  \<^verbatim>\<open>k in d\<close> is \<open>map_of d k \<noteq> None\<close> and \<^verbatim>\<open>len(d)\<close> is \<open>length d\<close>.
\<close>

fun dict_set :: "('k \<times> 'v) list \<Rightarrow> 'k \<Rightarrow> 'v \<Rightarrow> ('k \<times> 'v) list" where
  "dict_set [] k v = [(k, v)]"
| "dict_set ((k', v') # kvs) k v =
     (if k' = k then (k, v) # kvs else (k', v') # dict_set kvs k v)"

subsection \<open>The detector container\<close>

text \<open>
  Modelled from the spec: the class \<^verbatim>\<open>Detector\<close>, which \<^verbatim>\<open>detector.py\<close> imports from
  \<^verbatim>\<open>objects/containers.py\<close>, is missing from the sources. The specification
  (``BinnedRecordContainer'') gives it a name, a two-dimensional tally array and
  \<^verbatim>\<open>grids\<close>, a mapping from the label of a bin dimension to a two-dimensional array.
  The tally array is \<open>None\<close> until it is set. A key of \<^verbatim>\<open>grids\<close> is what
  \<^verbatim>\<open>_addDetector\<close> passes as \<^verbatim>\<open>binType\<close>: a string of one character, or \<^verbatim>\<open>None\<close>.
\<close>

record 'a Detector =
  det_name :: string
  tallies :: "'a ndarray option"
  grids :: "string option \<rightharpoonup> 'a ndarray"

text \<open>
  Modelled from the spec: the constructor \<^verbatim>\<open>Detector(name)\<close> is missing from the
  sources; a new container has its name, no tally array yet and no grids.
\<close>

definition new_Detector :: "string \<Rightarrow> 'a Detector" where
  "new_Detector detName = \<lparr>det_name = detName, tallies = None, grids = Map.empty\<rparr>"

text \<open>
  Modelled from the spec: the method \<^verbatim>\<open>addTallyData\<close> is missing from the sources; it
  stores the parsed array as the tally array of the container.
\<close>

definition addTallyData :: "'a Detector \<Rightarrow> 'a ndarray \<Rightarrow> 'a Detector" where
  "addTallyData detector dat = detector\<lparr>tallies := Some dat\<rparr>"

text \<open>
  Modelled from the spec: the function \<^verbatim>\<open>error\<close> of \<^verbatim>\<open>serpentTools.messages\<close>, which
  \<^verbatim>\<open>_postcheck\<close> calls, is missing from the sources. The specification calls the
  report of a count mismatch ``a non-fatal but loud error'': the function reports the
  message at error level and returns.
\<close>

definition report_error :: "string \<Rightarrow> msg list" where
  "report_error s = [Error s]"

subsection \<open>The reader\<close>

text \<open>
  \<^verbatim>\<open>filePath\<close> and \<^verbatim>\<open>settings\<close> are set by \<^verbatim>\<open>BaseReader.__init__\<close>; of the settings
  the reader uses the list \<^verbatim>\<open>settings['names']\<close>.
\<close>

record 'a DetectorReader =
  filePath :: string
  settings_names :: "string list"
  loadAll :: bool
  detCount :: nat
  detectors :: "(string \<times> 'a Detector) list"

definition new_DetectorReader :: "string \<Rightarrow> string list \<Rightarrow> 'a DetectorReader" where
  "new_DetectorReader path nms =
     \<lparr>filePath = path, settings_names = nms, loadAll = (nms = []), detCount = 0,
      detectors = []\<rparr>"

definition NUM_COLS :: nat where
  "NUM_COLS = 12"

text \<open>
  \<^verbatim>\<open>[float(xx) for xx in line.split()]\<close>. Python's \<^verbatim>\<open>float\<close> on a string is the
  parameter \<open>float_of\<close>; \<open>None\<close> stands for its ValueError.
\<close>

fun floats :: "(string \<Rightarrow> 'a option) \<Rightarrow> string list \<Rightarrow> error + 'a list" where
  "floats float_of [] = Inr []"
| "floats float_of (xx # rest) =
     (case float_of xx of
        None \<Rightarrow> Inl ValueError
      | Some v \<Rightarrow>
          (case floats float_of rest of
             Inl e \<Rightarrow> Inl e
           | Inr vs \<Rightarrow> Inr (v # vs)))"

text \<open>
  The loop of \<^verbatim>\<open>_addDetector\<close> that fills \<^verbatim>\<open>data\<close>, an array with one row of \<open>w\<close>
  columns per line of the chunk.
\<close>

fun fill_data :: "(string \<Rightarrow> 'a option) \<Rightarrow> nat \<Rightarrow> string list \<Rightarrow> error + 'a list list" where
  "fill_data float_of w [] = Inr []"
| "fill_data float_of w (line # rest) =
     (case floats float_of (split_ws line) of
        Inl e \<Rightarrow> Inl e
      | Inr r \<Rightarrow>
          (case assign_row w r of
             Inl e \<Rightarrow> Inl e
           | Inr r' \<Rightarrow>
               (case fill_data float_of w rest of
                  Inl e \<Rightarrow> Inl e
                | Inr rs \<Rightarrow> Inr (r' # rs))))"

text \<open>
  Lines 56 to 61 of \<^verbatim>\<open>_addDetector\<close>: the array parsed from the chunk. A tally chunk
  has \<open>NUM_COLS\<close> columns, a grid chunk as many as its first line has fields;
  \<^verbatim>\<open>chunk[0]\<close> of an empty chunk raises IndexError.
\<close>

definition parse_data ::
  "(string \<Rightarrow> 'a option) \<Rightarrow> string option \<Rightarrow> string list \<Rightarrow> error + 'a ndarray" where
  "parse_data float_of binType chunk =
     (case (case binType of
              None \<Rightarrow> Inr NUM_COLS
            | Some b \<Rightarrow> (case chunk of [] \<Rightarrow> Inl IndexError
                                     | l # ls \<Rightarrow> Inr (length (split_ws l)))) of
        Inl e \<Rightarrow> Inl e
      | Inr ncols \<Rightarrow>
          (case fill_data float_of ncols chunk of
             Inl e \<Rightarrow> Inl e
           | Inr rows \<Rightarrow> Inr (Mat rows)))"

text \<open>\<^verbatim>\<open>'{}'.format(binType)\<close> for a string or \<^verbatim>\<open>None\<close>.\<close>

definition format_binType :: "string option \<Rightarrow> string" where
  "format_binType binType = (case binType of None \<Rightarrow> ''None'' | Some b \<Rightarrow> b)"

text \<open>
  \<^verbatim>\<open>_addDetector(chunk, detName, binType)\<close>. The result is the reader after the call,
  the messages emitted and the outcome; the dictionary is changed only after the data
  have been parsed, so a call that raises leaves the reader as it was.
\<close>

definition addDetector ::
  "(string \<Rightarrow> 'a option) \<Rightarrow> 'a DetectorReader \<Rightarrow> string list \<Rightarrow> string \<Rightarrow> string option
     \<Rightarrow> 'a DetectorReader \<times> msg list \<times> (error + unit)" where
  "addDetector float_of r chunk detName binType =
     (case parse_data float_of binType chunk of
        Inl e \<Rightarrow> (r, [], Inl e)
      | Inr dat \<Rightarrow>
          (case map_of (detectors r) detName of
             None \<Rightarrow>
               (r\<lparr>detectors :=
                    dict_set (detectors r) detName (addTallyData (new_Detector detName) dat)\<rparr>,
                [Debug (''Adding detector '' @ detName)], Inr ())
           | Some detector \<Rightarrow>
               (r\<lparr>detectors :=
                    dict_set (detectors r) detName
                      (detector\<lparr>grids := (grids detector)(binType \<mapsto> dat)\<rparr>)\<rparr>,
                [Debug (''Added bin data '' @ format_binType binType @ '' to detector ''
                        @ detName)],
                Inr ())))"

text \<open>
  The body of the loop of \<^verbatim>\<open>_read\<close> for one chunk. \<^verbatim>\<open>chunk.pop(0)\<close> raises IndexError on
  an empty chunk; \<^verbatim>\<open>split(' ')[0]\<close> is the part of the line before its first blank;
  \<^verbatim>\<open>detString[-1]\<close> raises IndexError on the empty string.
\<close>

definition read_chunk ::
  "(string \<Rightarrow> 'a option) \<Rightarrow> 'a DetectorReader \<Rightarrow> string list
     \<Rightarrow> 'a DetectorReader \<times> msg list \<times> (error + unit)" where
  "read_chunk float_of r chunk0 =
     (case chunk0 of
        [] \<Rightarrow> (r, [], Inl IndexError)
      | first # chunk \<Rightarrow>
          (let detString = drop 3 (takeWhile (\<lambda>c. c \<noteq> CHR '' '') first) in
           if map_of (detectors r) (butlast detString) \<noteq> None then
             (if detString = [] then (r, [], Inl IndexError)
              else addDetector float_of r chunk (butlast detString) (Some [last detString]))
           else if detString \<in> set (settings_names r) \<or> loadAll r then
             addDetector float_of r chunk detString None
           else (r, [], Inr ())))"

text \<open>
  The loop of \<^verbatim>\<open>_read\<close> over the chunks that \<^verbatim>\<open>KeywordParser.yieldChunks\<close> yields. The
  scanner is not among the sources; its chunks are the argument. The loop stops at the
  first chunk that raises, and the detectors stored before stay in the reader.
\<close>

fun read_chunks ::
  "(string \<Rightarrow> 'a option) \<Rightarrow> 'a DetectorReader \<Rightarrow> string list list
     \<Rightarrow> 'a DetectorReader \<times> msg list \<times> (error + unit)" where
  "read_chunks float_of r [] = (r, [], Inr ())"
| "read_chunks float_of r (chunk # rest) =
     (case read_chunk float_of r chunk of
        (r', ms, Inl e) \<Rightarrow> (r', ms, Inl e)
      | (r', ms, Inr u) \<Rightarrow>
          (case read_chunks float_of r' rest of
             (r'', ms', res) \<Rightarrow> (r'', ms @ ms', res)))"

text \<open>\<^verbatim>\<open>_read()\<close>.\<close>

definition read_detectors ::
  "(string \<Rightarrow> 'a option) \<Rightarrow> 'a DetectorReader \<Rightarrow> string list list
     \<Rightarrow> 'a DetectorReader \<times> msg list \<times> (error + unit)" where
  "read_detectors float_of r chunks =
     (case read_chunks float_of r chunks of
        (r', ms, Inl e) \<Rightarrow> (r', Info (''Preparing to read '' @ filePath r) # ms, Inl e)
      | (r', ms, Inr u) \<Rightarrow>
          (r', Info (''Preparing to read '' @ filePath r) # ms @ [Info ''Done''], Inr ()))"

text \<open>
  \<^verbatim>\<open>_precheck()\<close> over the lines of the file: it counts the lines whose first field
  contains \<^verbatim>\<open>DET\<close>.
\<close>

fun precheck :: "'a DetectorReader \<Rightarrow> string list \<Rightarrow> 'a DetectorReader" where
  "precheck r [] = r"
| "precheck r (line # rest) =
     (let sline = split_ws line in
      if sline = [] then precheck r rest
      else if sublist ''DET'' (hd sline) then precheck (r\<lparr>detCount := detCount r + 1\<rparr>) rest
      else precheck r rest)"

text \<open>\<^verbatim>\<open>_postcheck()\<close>. It assigns to nothing.\<close>

definition postcheck :: "'a DetectorReader \<Rightarrow> 'a DetectorReader \<times> msg list \<times> (error + unit)" where
  "postcheck r =
     (if detCount r \<noteq> length (detectors r) then
        (r, report_error (''Did not parse expected number of detectors in file'' @ [CHR 0x0A]
                          @ filePath r), Inr ())
      else (r, [], Inr ()))"

text \<open>
  A stand-in for \<^verbatim>\<open>float\<close> in the examples: it reads a string of decimal digits.
\<close>

fun digits_value :: "int \<Rightarrow> string \<Rightarrow> int option" where
  "digits_value acc [] = Some acc"
| "digits_value acc (c # cs) =
     (case index_of ''0123456789'' c of
        None \<Rightarrow> None
      | Some d \<Rightarrow> digits_value (10 * acc + int d) cs)"

definition float_example :: "string \<Rightarrow> int option" where
  "float_example s = (if s = [] then None else digits_value 0 s)"

text \<open>
  A detector file with the detectors \<^verbatim>\<open>D1\<close>, \<^verbatim>\<open>D2\<close> and \<^verbatim>\<open>D3\<close>, each with one line
  of tallies: its lines, and the chunks of the scanner. And the chunks of a file with the
  detector \<^verbatim>\<open>D1\<close> and its energy grid \<^verbatim>\<open>D1E\<close>.
\<close>

definition det_lines :: "string list" where
  "det_lines =
     [''DETD1 = ['', ''1 1 1 1 1 1 1 1 1 1 5 0'', ''];'', [],
      ''DETD2 = ['', ''1 1 1 1 1 1 1 1 1 1 6 0'', ''];'', [],
      ''DETD3 = ['', ''1 1 1 1 1 1 1 1 1 1 7 0'', ''];'']"

definition det_chunks :: "string list list" where
  "det_chunks =
     [[''DETD1 = ['', ''1 1 1 1 1 1 1 1 1 1 5 0''],
      [''DETD2 = ['', ''1 1 1 1 1 1 1 1 1 1 6 0''],
      [''DETD3 = ['', ''1 1 1 1 1 1 1 1 1 1 7 0'']]"

definition grid_chunks :: "string list list" where
  "grid_chunks =
     [[''DETD1 = ['', ''1 1 1 1 1 1 1 1 1 1 5 0''],
      [''DETD1E = ['', ''0 1 2'', ''1 2 3'']]"

text \<open>
  The reader in all-names mode after the tally chunk of \<^verbatim>\<open>D1\<close>, and the reader with
  the names \<^verbatim>\<open>D1\<close> and \<^verbatim>\<open>D3\<close> requested after the precheck and the scan of the file
  with three detectors.
\<close>

definition reader_D1 :: "int DetectorReader" where
  "reader_D1 =
     \<lparr>filePath = ''f_det0.m'', settings_names = [], loadAll = True, detCount = 0,
      detectors =
        [(''D1'', \<lparr>det_name = ''D1'',
                   tallies = Some (Mat [[1, 1, 1, 1, 1, 1, 1, 1, 1, 1, 5, 0]]),
                   grids = Map.empty\<rparr>)]\<rparr>"

definition reader_filtered :: "int DetectorReader" where
  "reader_filtered =
     \<lparr>filePath = ''f_det0.m'', settings_names = [''D1'', ''D3''], loadAll = False,
      detCount = 3,
      detectors =
        [(''D1'', \<lparr>det_name = ''D1'',
                   tallies = Some (Mat [[1, 1, 1, 1, 1, 1, 1, 1, 1, 1, 5, 0]]),
                   grids = Map.empty\<rparr>),
         (''D3'', \<lparr>det_name = ''D3'',
                   tallies = Some (Mat [[1, 1, 1, 1, 1, 1, 1, 1, 1, 1, 7, 0]]),
                   grids = Map.empty\<rparr>)]\<rparr>"

section \<open>Properties of HomogUniv\<close>

lemma lookup_known:
  "sublist ''inf'' n \<or> sublist ''b1'' n \<Longrightarrow>
   lookup ef n b =
     ([], Inr (Some (if sublist ''inf'' n then (if b then InfUnc else InfExp)
                     else (if b then B1Unc else B1Exp))))"
  by (auto simp: lookup_def)

lemma deref_setitem: "deref (setitem u r k v) r = (deref u r)(k \<mapsto> v)"
  by (cases r) (simp_all add: deref_def setitem_def)

text \<open>
  Claim C2. For a name whose converted form carries a family marker and whose slot in
  the uncertainty dictionary of its family (\<open>infUnc\<close> when the name contains \<^verbatim>\<open>inf\<close>,
  \<open>b1Unc\<close> otherwise) holds \<open>dv\<close>, \<^verbatim>\<open>get(name, uncertainty=True)\<close> returns the pair
  \<open>(dv, dv)\<close>: both members are reads of that uncertainty dictionary. The dictionaries
  of expected values are not consulted: replacing them by any others gives the same pair.
\<close>

theorem get_uncertainty_reads_unc_slot_twice:
  assumes "sublist ''inf'' (conv n) \<or> sublist ''b1'' (conv n)"
      and "(if sublist ''inf'' (conv n) then infUnc u else b1Unc u) (conv n) = Some dv"
  shows "get_univ conv ef u n (PyBool True) = (u, [], Inr (Pair (Some dv) (Some dv)))
       \<and> get_univ conv ef (u\<lparr>infExp := e1, b1Exp := e2\<rparr>) n (PyBool True)
           = (u\<lparr>infExp := e1, b1Exp := e2\<rparr>, [], Inr (Pair (Some dv) (Some dv)))"
  using assms by (auto simp: get_univ_def lookup_known deref_def Let_def)

theorem get_uncertainty_reads_unc_slot_twice_witness:
  "(sublist ''inf'' (conv_example ''inf_Kinf'') \<or> sublist ''b1'' (conv_example ''inf_Kinf''))
   \<and> (if sublist ''inf'' (conv_example ''inf_Kinf'')
       then infUnc univ_two_families else b1Unc univ_two_families)
        (conv_example ''inf_Kinf'') = Some 3
   \<and> get_univ conv_example Logging univ_two_families ''inf_Kinf'' (PyBool True)
       = (univ_two_families, [], Inr (Pair (Some 3) (Some 3)))
   \<and> (sublist ''inf'' (conv_example ''b1_Nubar'') \<or> sublist ''b1'' (conv_example ''b1_Nubar''))
   \<and> (if sublist ''inf'' (conv_example ''b1_Nubar'')
       then infUnc univ_two_families else b1Unc univ_two_families)
        (conv_example ''b1_Nubar'') = Some 4
   \<and> get_univ conv_example Logging univ_two_families ''b1_Nubar'' (PyBool True)
       = (univ_two_families, [], Inr (Pair (Some 4) (Some 4)))
   \<and> get_univ conv_example Logging
         (univ_two_families\<lparr>infExp := Map.empty, b1Exp := Map.empty\<rparr>) ''b1_Nubar'' (PyBool True)
       = (univ_two_families\<lparr>infExp := Map.empty, b1Exp := Map.empty\<rparr>, [],
          Inr (Pair (Some 4) (Some 4)))"
  using get_uncertainty_reads_unc_slot_twice
          [where conv = conv_example and n = "''inf_Kinf''" and u = univ_two_families
             and dv = 3 and ef = Logging and ?e1.0 = Map.empty and ?e2.0 = Map.empty]
        get_uncertainty_reads_unc_slot_twice
          [where conv = conv_example and n = "''b1_Nubar''" and u = univ_two_families
             and dv = 4 and ef = Logging and ?e1.0 = Map.empty and ?e2.0 = Map.empty]
  by (simp add: sublist_code(3) univ_two_families_def conv_example_def)


text \<open>
  Claim C7. For a name that classifies into a family, \<^verbatim>\<open>set(name, v)\<close> succeeds and
  \<^verbatim>\<open>get(name)\<close> right after it returns \<open>v\<close>. The first \<^verbatim>\<open>set\<close> warns exactly when
  the slot already held a value. A second \<^verbatim>\<open>set\<close> for a name with the same converted
  form emits exactly one message, the overwrite warning, and replaces the value.
\<close>

theorem set_get_roundtrip_and_overwrite_warning:
  assumes "sublist ''inf'' (conv n) \<or> sublist ''b1'' (conv n)"
      and "conv n' = conv n"
  shows "(case set_univ conv ef u n v (PyBool False) of (u1, ms1, r1) \<Rightarrow>
            r1 = Inr ()
          \<and> ms1 = (if conv n \<in> dom (deref u (if sublist ''inf'' (conv n) then InfExp else B1Exp))
                   then [Warning ''The variable will be overwritten''] else [])
          \<and> get_univ conv ef u1 n (PyBool False) = (u1, [], Inr (Single (Some v)))
          \<and> (case set_univ conv ef u1 n' v' (PyBool False) of (u2, ms2, r2) \<Rightarrow>
                r2 = Inr ()
              \<and> ms2 = [Warning ''The variable will be overwritten'']
              \<and> get_univ conv ef u2 n (PyBool False) = (u2, [], Inr (Single (Some v')))))"
  using assms
  by (auto simp: set_univ_def get_univ_def lookup_known Let_def deref_setitem)

theorem set_get_roundtrip_and_overwrite_warning_witness:
  "(sublist ''inf'' (conv_example ''b1_Nubar'') \<or> sublist ''b1'' (conv_example ''b1_Nubar''))
   \<and> conv_example ''b1Nubar'' = conv_example ''b1_Nubar''
   \<and> (case set_univ conv_example Logging univ_example ''b1_Nubar'' 5 (PyBool False) of
        (u1, ms1, r1) \<Rightarrow>
            r1 = Inr () \<and> ms1 = []
          \<and> get_univ conv_example Logging u1 ''b1_Nubar'' (PyBool False)
              = (u1, [], Inr (Single (Some 5)))
          \<and> (case set_univ conv_example Logging u1 ''b1Nubar'' 7 (PyBool False) of
               (u2, ms2, r2) \<Rightarrow>
                  r2 = Inr ()
                \<and> ms2 = [Warning ''The variable will be overwritten'']
                \<and> get_univ conv_example Logging u2 ''b1_Nubar'' (PyBool False)
                    = (u2, [], Inr (Single (Some 7)))))"
  using set_get_roundtrip_and_overwrite_warning
          [where conv = conv_example and n = "''b1_Nubar''" and n' = "''b1Nubar''"
             and ef = Logging and u = univ_example and v = 5 and v' = 7]
  by (simp add: sublist_code(3) conv_example_def deref_def univ_example_def)

text \<open>
  Claim C10. For a name that classifies into a family and whose slot in the dictionary
  of expected values of that family is empty, \<^verbatim>\<open>get(name)\<close> raises nothing and returns
  \<^verbatim>\<open>None\<close>; the universe after the call is the universe before it.
\<close>

theorem get_unset_returns_None:
  assumes "sublist ''inf'' (conv n) \<or> sublist ''b1'' (conv n)"
      and "deref u (if sublist ''inf'' (conv n) then InfExp else B1Exp) (conv n) = None"
  shows "get_univ conv ef u n (PyBool False) = (u, [], Inr (Single None))"
  using assms by (auto simp: get_univ_def lookup_known Let_def)

theorem get_unset_returns_None_witness:
  "(sublist ''inf'' (conv_example ''inf_Nubar'') \<or> sublist ''b1'' (conv_example ''inf_Nubar''))
   \<and> deref univ_example
        (if sublist ''inf'' (conv_example ''inf_Nubar'') then InfExp else B1Exp)
        (conv_example ''inf_Nubar'') = None
   \<and> get_univ conv_example Logging univ_example ''inf_Nubar'' (PyBool False)
       = (univ_example, [], Inr (Single None))"
  using get_unset_returns_None
          [where conv = conv_example and n = "''inf_Nubar''" and u = univ_example
             and ef = Logging]
  by (simp add: sublist_code(3) conv_example_def deref_def univ_example_def)

section \<open>Properties of DepletedMaterial\<close>

subsection \<open>Auxiliary facts\<close>

lemma sublist_appendL: "sublist s t \<Longrightarrow> sublist s (p @ t)"
  by (metis append.assoc sublist_def)

lemma sublist_join: "s \<in> set ss \<Longrightarrow> sublist s (join sep ss)"
proof (induction sep ss rule: join.induct)
  case (1 sep)
  then show ?case by simp
next
  case (2 sep s')
  then show ?case by simp
next
  case (3 sep a b ss)
  show ?case
  proof (cases "s = a")
    case True
    then show ?thesis by simp
  next
    case False
    with 3 have "sublist s (join sep (b # ss))" by simp
    then show ?thesis by (simp add: sublist_appendL)
  qed
qed

lemma assign_row_length: "assign_row w r = Inr r' \<Longrightarrow> length r' = w"
  by (auto simp: assign_row_def split: if_splits)

lemma fill_rows_shape:
  "fill_rows allY colIndices w rowIndices = Inr yVals \<Longrightarrow>
   length yVals = length rowIndices \<and> (\<forall>r\<in>set yVals. length r = w)"
proof (induction rowIndices arbitrary: yVals)
  case Nil
  then show ?case by simp
next
  case (Cons rowId rest)
  from Cons.prems obtain r' rs where
    r': "assign_row w r' = Inr r' \<or> (\<exists>r. assign_row w r = Inr r')"
    and rs: "fill_rows allY colIndices w rest = Inr rs" and y: "yVals = r' # rs"
    by (auto split: if_splits sum.splits)
  from r' have "length r' = w" by (auto dest: assign_row_length)
  with Cons.IH [OF rs] y show ?case by simp
qed

lemma getIsoID_loop_length:
  "getIsoID_loop nms isoList = Inr rowIDs \<Longrightarrow> length rowIDs = length isoList"
  by (induction isoList arbitrary: rowIDs) (auto split: option.splits sum.splits)

lemma getIsoID_length:
  "getIsoID m names0 = Inr rowIndices \<Longrightarrow> length rowIndices = numIsotopesRequested m names0"
  by (cases names0)
     (auto simp: getIsoID_def numIsotopesRequested_def Let_def
           dest: getIsoID_loop_length split: option.splits if_splits)

lemma length_filter_index:
  "length (filter (\<lambda>i. P (xs ! i)) [0..<length xs]) = length (filter P xs)"
proof -
  have "filter P xs = filter P (map (\<lambda>i. xs ! i) [0..<length xs])"
    by (simp add: map_nth)
  also have "\<dots> = map (\<lambda>i. xs ! i) (filter (P \<circ> (\<lambda>i. xs ! i)) [0..<length xs])"
    by (simp only: filter_map)
  finally show ?thesis by (simp add: comp_def)
qed

lemma take_indices_filter_upt:
  "take_indices xs (filter Q [0..<length xs]) = Inr (map (\<lambda>i. xs ! i) (filter Q [0..<length xs]))"
  by (simp add: take_indices_def list_all_iff)

lemma getXSlice_Vec:
  "getXSlice m xUnits timePoints =
     Inr (case timePoints of
            None \<Rightarrow> (Some (Vec xs), None)
          | Some tps \<Rightarrow>
              (Some (Vec (map (\<lambda>i. xs ! i) (filter (\<lambda>indx. xs ! indx \<in> set tps) [0..<length xs]))),
               Some (filter (\<lambda>indx. xs ! indx \<in> set tps) [0..<length xs])))"
  if "xaxis m xUnits = Inr (Some (Vec xs))"
proof (cases timePoints)
  case None
  then show ?thesis using that by (simp add: getXSlice_def)
next
  case (Some tps)
  have "index_nd (Vec xs) (filter (\<lambda>indx. xs ! indx \<in> set tps) [0..<length xs])
          = Inr (Vec (map (\<lambda>i. xs ! i) (filter (\<lambda>indx. xs ! indx \<in> set tps) [0..<length xs])))"
    by (simp only: index_nd_def ndarray.case take_indices_filter_upt sum.case)
  with Some that show ?thesis
    by (simp only: getXSlice_def colIndices_of_def sum.case option.case ndarray.case prod.case)
qed

lemma length_filter_distinct:
  assumes "distinct xs" "distinct tps" "set tps \<subseteq> set xs"
  shows "length (filter (\<lambda>x. x \<in> set tps) xs) = length tps"
proof -
  let ?f = "filter (\<lambda>x. x \<in> set tps) xs"
  have d: "distinct ?f" using assms(1) by simp
  have s: "set ?f = set tps" using assms(3) by auto
  have "length ?f = card (set ?f)" using d by (rule distinct_card [symmetric])
  also have "\<dots> = card (set tps)" by (simp only: s)
  also have "\<dots> = length tps" using assms(2) by (rule distinct_card)
  finally show ?thesis .
qed

lemma timeCheck_passes_subset:
  assumes "getValues_timeCheck str m xUnits (Some tps) = Inr ()"
      and "xaxis m xUnits = Inr (Some valid)" and "\<forall>t\<in>set tps. str t \<noteq> []"
  shows "set tps \<subseteq> set (flat valid)"
proof
  fix t assume t: "t \<in> set tps"
  show "t \<in> set (flat valid)"
  proof (rule ccontr)
    assume "t \<notin> set (flat valid)"
    with t have "str t \<in> set (map str (filter (\<lambda>time. time \<notin> set (flat valid)) tps))" by simp
    with assms(3) t have "list_ex (\<lambda>s. s \<noteq> []) (map str (filter (\<lambda>time. time \<notin> set (flat valid)) tps))"
      unfolding list_ex_iff by blast
    with assms(1,2) show False
      by (simp add: getValues_timeCheck_def checkTimePoints_def)
  qed
qed

lemma getValues_slice_Mat:
  assumes sl: "getValues_slice m xUnits yUnits timePoints names0 = Inr res"
      and y: "data m yUnits = Some (Mat rows)" and nr: "length rows \<noteq> 1"
      and gx: "getXSlice m xUnits timePoints = Inr (Some (Vec xv), colIndices)"
  shows "\<exists>rowIndices yVals. getIsoID m names0 = Inr rowIndices
           \<and> fill_rows rows colIndices (length xv) rowIndices = Inr yVals \<and> res = Mat yVals"
proof (cases "getIsoID m names0")
  case (Inl e)
  with sl gx show ?thesis by (simp add: getValues_slice_def)
next
  case (Inr rowIndices)
  show ?thesis
  proof (cases "fill_rows rows colIndices (length xv) rowIndices")
    case (Inl e)
    with sl gx Inr y nr show ?thesis by (simp add: getValues_slice_def)
  next
    case fr: (Inr yVals)
    with sl gx Inr y nr have "res = Mat yVals" by (simp add: getValues_slice_def)
    with Inr fr show ?thesis by blast
  qed
qed

lemma getValues_Mat_shape:
  assumes ok: "getValues str m xUnits yUnits timePoints names0 = (m', Inr res)"
      and y: "data m yUnits = Some (Mat rows)" and nr: "length rows \<noteq> 1"
      and x: "xaxis m xUnits = Inr (Some (Vec xs))"
  shows "\<exists>yVals. res = Mat yVals \<and> length yVals = numIsotopesRequested m names0
           \<and> (\<forall>r\<in>set yVals. length r =
                 length (case timePoints of None \<Rightarrow> xs
                         | Some tps \<Rightarrow> filter (\<lambda>x. x \<in> set tps) xs))"
proof -
  have sl: "getValues_slice m xUnits yUnits timePoints names0 = Inr res"
  proof (cases "getValues_timeCheck str m xUnits timePoints")
    case (Inl e)
    with ok show ?thesis by (simp add: getValues_def)
  next
    case (Inr u)
    with ok show ?thesis by (auto simp: getValues_def split: if_splits)
  qed
  show ?thesis
  proof (cases timePoints)
    case None
    have gx: "getXSlice m xUnits timePoints = Inr (Some (Vec xs), None)"
      using getXSlice_Vec [OF x, of timePoints] None by simp
    from getValues_slice_Mat [OF sl y nr gx] obtain rowIndices yVals where
      iso: "getIsoID m names0 = Inr rowIndices"
      and fr: "fill_rows rows None (length xs) rowIndices = Inr yVals"
      and res: "res = Mat yVals" by blast
    from fill_rows_shape [OF fr] getIsoID_length [OF iso] res None show ?thesis by simp
  next
    case (Some tps)
    let ?cols = "filter (\<lambda>indx. xs ! indx \<in> set tps) [0..<length xs]"
    have gx: "getXSlice m xUnits timePoints
                = Inr (Some (Vec (map (\<lambda>i. xs ! i) ?cols)), Some ?cols)"
      using getXSlice_Vec [OF x, of timePoints] Some by simp
    from getValues_slice_Mat [OF sl y nr gx] obtain rowIndices yVals where
      iso: "getIsoID m names0 = Inr rowIndices"
      and fr: "fill_rows rows (Some ?cols) (length (map (\<lambda>i. xs ! i) ?cols)) rowIndices = Inr yVals"
      and res: "res = Mat yVals" by blast
    have len: "length (map (\<lambda>i. xs ! i) ?cols) = length (filter (\<lambda>x. x \<in> set tps) xs)"
      using length_filter_index [of "\<lambda>x. x \<in> set tps" xs] by simp
    from fill_rows_shape [OF fr] getIsoID_length [OF iso] res Some len show ?thesis by simp
  qed
qed


lemma getValues_timeCheck_ok:
  assumes "getValues str m xUnits yUnits timePoints names0 = (m', Inr res)"
  shows "getValues_timeCheck str m xUnits timePoints = Inr () \<and> m' = m"
proof (cases "getValues_timeCheck str m xUnits timePoints")
  case (Inl e)
  with assms show ?thesis by (simp add: getValues_def)
next
  case (Inr u)
  with assms show ?thesis by (auto simp: getValues_def)
qed

lemma str_int_examples:
  "str_int 0 = ''0''" "str_int 15 = ''15''" "str_int 25 = ''25''" "str_int 20 = ''20''"
  "str_int 10 = ''10''" "str_int 5 = ''5''"
  by (simp_all add: str_int_def str_nat.simps)

lemma missing_time_points_aux:
  assumes ax: "xaxis m xUnits = Inr (Some valid)"
      and miss: "\<exists>t\<in>set timePoints. t \<notin> set (flat valid)"
      and str: "\<forall>t\<in>set timePoints. str t \<noteq> []"
  shows "getValues str m xUnits yUnits (Some timePoints) names0 =
           (m, Inl (KeyError (''The following times were not present in file '' @ origin m
                     @ [CHR 0x0A]
                     @ join '', '' (map str (filter (\<lambda>t. t \<notin> set (flat valid)) timePoints)))))
       \<and> (\<forall>t\<in>set timePoints. t \<notin> set (flat valid) \<longrightarrow>
             sublist (str t)
               (''The following times were not present in file '' @ origin m @ [CHR 0x0A]
                @ join '', '' (map str (filter (\<lambda>t. t \<notin> set (flat valid)) timePoints))))"
proof -
  let ?bad = "filter (\<lambda>t. t \<notin> set (flat valid)) timePoints"
  have chk: "checkTimePoints str m xUnits timePoints = Inr (map str ?bad)"
    using ax by (simp add: checkTimePoints_def)
  from miss obtain t where t: "t \<in> set timePoints" "t \<notin> set (flat valid)" by blast
  then have "str t \<in> set (map str ?bad)" by simp
  moreover have "str t \<noteq> []" using str t by blast
  ultimately have any: "list_ex (\<lambda>s. s \<noteq> []) (map str ?bad)"
    unfolding list_ex_iff by blast
  have 1: "getValues str m xUnits yUnits (Some timePoints) names0 =
           (m, Inl (KeyError (''The following times were not present in file '' @ origin m
                     @ [CHR 0x0A] @ join '', '' (map str ?bad))))"
    using chk any by (simp add: getValues_def getValues_timeCheck_def)
  have 2: "sublist (str t')
               (''The following times were not present in file '' @ origin m @ [CHR 0x0A]
                @ join '', '' (map str ?bad))"
    if "t' \<in> set timePoints" "t' \<notin> set (flat valid)" for t'
  proof -
    have "str t' \<in> set (map str ?bad)" using that by simp
    then have "sublist (str t') (join '', '' (map str ?bad))" by (rule sublist_join)
    then show ?thesis by (intro sublist_appendL)
  qed
  show ?thesis using 1 2 by blast
qed

subsection \<open>The claims on \<^verbatim>\<open>getValues\<close>\<close>

text \<open>
  Claim C1, as the specification states it, fails. With a time point requested twice
  the result has one column for it, not two: the columns are the positions of the
  axis whose value is among the requested points. And a matrix with a single row does
  not give a result of shape (isotopes requested, time points requested).
\<close>

theorem getValues_shape_counterexample:
  "getValues str_int mat_example ''days'' ''adens'' (Some [0, 0]) (NameList [''Xe135'', ''total''])
     = (mat_example, Inr (Mat [[1], [7]]))
   \<and> shape (Mat [[1], [7::int]])
       \<noteq> [numIsotopesRequested mat_example (NameList [''Xe135'', ''total'']),
           numTimePointsRequested 3 (Some [0, 0::int])]
   \<and> getValues str_int single_row_example ''days'' ''adens'' (Some [0]) (NameList [''Xe135''])
     = (single_row_example, Inr (Mat [[1, 2, 3]]))
   \<and> shape (Mat [[1, 2, 3::int]])
       \<noteq> [numIsotopesRequested single_row_example (NameList [''Xe135'']),
           numTimePointsRequested 3 (Some [0::int])]"
  by (simp add: getValues_def getValues_timeCheck_def checkTimePoints_def xaxis_def
        getValues_slice_def getXSlice_def colIndices_of_def index_nd_def take_indices_def
        getIsoID_def single_row_example_def mat_example_def upt_rec assign_row_def
        numIsotopesRequested_def numTimePointsRequested_def)

text \<open>
  Claim C1, amended. The example holds for every stored \<^verbatim>\<open>adens\<close> matrix of three rows
  and three columns: with the isotope names \<^verbatim>\<open>Xe135\<close>, \<^verbatim>\<open>Sm149\<close>, \<^verbatim>\<open>total\<close> and the
  days 0, 10, 20, the call for the days 0 and 20 and the names \<^verbatim>\<open>Xe135\<close> and \<^verbatim>\<open>total\<close>
  returns rows 0 and 2 restricted to columns 0 and 2. In general, for a stored matrix
  whose number of rows is not 1 and a one-dimensional x axis, a call that succeeds
  leaves the material as it was and returns a matrix with one row per isotope requested
  (all isotopes when none is requested) and, in every row, one column per position of
  the x axis whose value is among the requested time points (all positions when
  \<^verbatim>\<open>timePoints\<close> is \<^verbatim>\<open>None\<close>); that is the number of time points requested when the
  axis has no repeated value and the requested points are pairwise distinct (and
  \<open>str\<close> prints none of them as the empty string).
\<close>

theorem getValues_example_and_shape:
  fixes m0 :: "int DepletedMaterial"
  shows "(names m0 = Some [''Xe135'', ''Sm149'', ''total''] \<and> days m0 = Some [0, 10, 20]
     \<and> data m0 ''adens'' = Some (Mat [[a00, a01, a02], [a10, a11, a12], [a20, a21, a22]])
     \<longrightarrow> getValues str0 m0 ''days'' ''adens'' (Some [0, 20]) (NameList [''Xe135'', ''total''])
           = (m0, Inr (Mat [[a00, a02], [a20, a22]])))
   \<and> (getValues str m xUnits yUnits timePoints names0 = (m', Inr res)
      \<and> data m yUnits = Some (Mat rows) \<and> length rows \<noteq> 1
      \<and> ((xUnits = ''days'' \<and> days m = Some xs)
          \<or> (xUnits \<noteq> ''days'' \<and> data m xUnits = Some (Vec xs)))
     \<longrightarrow> m' = m
       \<and> (case res of
            Vec ys \<Rightarrow> False
          | Mat yVals \<Rightarrow>
              length yVals = numIsotopesRequested m names0
            \<and> (\<forall>r\<in>set yVals. length r =
                  length (case timePoints of None \<Rightarrow> xs
                          | Some tps \<Rightarrow> filter (\<lambda>x. x \<in> set tps) xs))
            \<and> (distinct xs
                \<and> (case timePoints of None \<Rightarrow> True
                    | Some tps \<Rightarrow> distinct tps \<and> (\<forall>t\<in>set tps. str t \<noteq> []))
               \<longrightarrow> (\<forall>r\<in>set yVals. length r = numTimePointsRequested (length xs) timePoints))))"
proof (intro conjI impI)
  assume h: "names m0 = Some [''Xe135'', ''Sm149'', ''total''] \<and> days m0 = Some [0, 10, 20]
     \<and> data m0 ''adens'' = Some (Mat [[a00, a01, a02], [a10, a11, a12], [a20, a21, a22]])"
  then show "getValues str0 m0 ''days'' ''adens'' (Some [0, 20]) (NameList [''Xe135'', ''total''])
           = (m0, Inr (Mat [[a00, a02], [a20, a22]]))"
    by (simp add: getValues_def getValues_timeCheck_def checkTimePoints_def xaxis_def
          getValues_slice_def getXSlice_def colIndices_of_def index_nd_def take_indices_def
          getIsoID_def upt_rec assign_row_def)
next
  assume h: "getValues str m xUnits yUnits timePoints names0 = (m', Inr res)
      \<and> data m yUnits = Some (Mat rows) \<and> length rows \<noteq> 1
      \<and> ((xUnits = ''days'' \<and> days m = Some xs)
          \<or> (xUnits \<noteq> ''days'' \<and> data m xUnits = Some (Vec xs)))"
  then show "m' = m" using getValues_timeCheck_ok by blast
next
  assume h: "getValues str m xUnits yUnits timePoints names0 = (m', Inr res)
      \<and> data m yUnits = Some (Mat rows) \<and> length rows \<noteq> 1
      \<and> ((xUnits = ''days'' \<and> days m = Some xs)
          \<or> (xUnits \<noteq> ''days'' \<and> data m xUnits = Some (Vec xs)))"
  then have ok: "getValues str m xUnits yUnits timePoints names0 = (m', Inr res)"
    and y: "data m yUnits = Some (Mat rows)" and nr: "length rows \<noteq> 1"
    and ax: "(xUnits = ''days'' \<and> days m = Some xs)
          \<or> (xUnits \<noteq> ''days'' \<and> data m xUnits = Some (Vec xs))" by blast+
  have x: "xaxis m xUnits = Inr (Some (Vec xs))" using ax by (auto simp: xaxis_def)
  from getValues_Mat_shape [OF ok y nr x] obtain yVals where
    r: "res = Mat yVals" and l: "length yVals = numIsotopesRequested m names0"
    and w: "\<forall>r\<in>set yVals. length r =
                  length (case timePoints of None \<Rightarrow> xs
                          | Some tps \<Rightarrow> filter (\<lambda>x. x \<in> set tps) xs)" by blast
  have d: "\<forall>r\<in>set yVals. length r = numTimePointsRequested (length xs) timePoints"
    if dx: "distinct xs"
      and dt: "case timePoints of None \<Rightarrow> True
               | Some tps \<Rightarrow> distinct tps \<and> (\<forall>t\<in>set tps. str t \<noteq> [])"
  proof (cases timePoints)
    case None
    with w show ?thesis by (simp add: numTimePointsRequested_def)
  next
    case (Some tps)
    with dt have dtp: "distinct tps" and st: "\<forall>t\<in>set tps. str t \<noteq> []" by simp_all
    have tc: "getValues_timeCheck str m xUnits (Some tps) = Inr ()"
      using getValues_timeCheck_ok [OF ok] Some by simp
    have "set tps \<subseteq> set (flat (Vec xs))" by (rule timeCheck_passes_subset [OF tc x st])
    then have "set tps \<subseteq> set xs" by simp
    from length_filter_distinct [OF dx dtp this] w Some show ?thesis
      by (simp add: numTimePointsRequested_def)
  qed
  show "case res of
            Vec ys \<Rightarrow> False
          | Mat yVals \<Rightarrow>
              length yVals = numIsotopesRequested m names0
            \<and> (\<forall>r\<in>set yVals. length r =
                  length (case timePoints of None \<Rightarrow> xs
                          | Some tps \<Rightarrow> filter (\<lambda>x. x \<in> set tps) xs))
            \<and> (distinct xs
                \<and> (case timePoints of None \<Rightarrow> True
                    | Some tps \<Rightarrow> distinct tps \<and> (\<forall>t\<in>set tps. str t \<noteq> []))
               \<longrightarrow> (\<forall>r\<in>set yVals. length r = numTimePointsRequested (length xs) timePoints))"
    unfolding r ndarray.case using l w d by blast
qed

theorem getValues_example_and_shape_witness:
  "names mat_example = Some [''Xe135'', ''Sm149'', ''total'']
   \<and> days mat_example = Some [0, 10, 20]
   \<and> data mat_example ''adens'' = Some (Mat [[1, 2, 3], [4, 5, 6], [7, 8, 9]])
   \<and> getValues str_int mat_example ''days'' ''adens'' (Some [0, 20]) (NameList [''Xe135'', ''total''])
       = (mat_example, Inr (Mat [[1, 3], [7, 9]]))
   \<and> length [[1, 2, 3], [4, 5, 6], [7, 8, 9::int]] \<noteq> 1
   \<and> distinct [0, 10, 20::int] \<and> distinct [0, 20::int]
   \<and> list_all (\<lambda>t. str_int t \<noteq> []) [0, 20]
   \<and> numIsotopesRequested mat_example (NameList [''Xe135'', ''total'']) = 2
   \<and> numTimePointsRequested (length [0, 10, 20::int]) (Some [0, 20::int]) = 2
   \<and> length [[1, 3], [7, 9::int]] = numIsotopesRequested mat_example (NameList [''Xe135'', ''total''])
   \<and> list_all (\<lambda>r. length r = numTimePointsRequested (length [0, 10, 20::int]) (Some [0, 20::int]))
         [[1, 3], [7, 9::int]]"
proof -
  have n: "names mat_example = Some [''Xe135'', ''Sm149'', ''total'']"
    and d: "days mat_example = Some [0, 10, 20]"
    and a: "data mat_example ''adens'' = Some (Mat [[1, 2, 3], [4, 5, 6], [7, 8, 9]])"
    by (simp_all add: mat_example_def)
  have x: "(''days'' = ''days'' \<and> days mat_example = Some [0, 10, 20])
          \<or> (''days'' \<noteq> ''days'' \<and> data mat_example ''days'' = Some (Vec [0, 10, 20]))"
    using d by simp
  have s: "\<forall>t\<in>set [0, 20]. str_int t \<noteq> []" by (simp add: str_int_examples)
  note t = getValues_example_and_shape [where ?m0.0 = mat_example and ?str0.0 = str_int
      and ?a00.0 = 1 and ?a01.0 = 2 and ?a02.0 = 3 and ?a10.0 = 4 and ?a11.0 = 5 and ?a12.0 = 6
      and ?a20.0 = 7 and ?a21.0 = 8 and ?a22.0 = 9
      and str = str_int and m = mat_example and xUnits = "''days''" and yUnits = "''adens''"
      and timePoints = "Some [0, 20]" and ?names0.0 = "NameList [''Xe135'', ''total'']"
      and m' = mat_example and res = "Mat [[1, 3], [7, 9]]"
      and rows = "[[1, 2, 3], [4, 5, 6], [7, 8, 9]]" and xs = "[0, 10, 20]"]
  have g: "getValues str_int mat_example ''days'' ''adens'' (Some [0, 20])
             (NameList [''Xe135'', ''total'']) = (mat_example, Inr (Mat [[1, 3], [7, 9]]))"
    using t [THEN conjunct1] n d a by blast
  have l: "length [[1, 2, 3], [4, 5, 6], [7, 8, 9::int]] \<noteq> 1" by simp
  have c: "length [[1, 3], [7, 9::int]]
             = numIsotopesRequested mat_example (NameList [''Xe135'', ''total''])
         \<and> (\<forall>r\<in>set [[1, 3], [7, 9::int]].
               length r = numTimePointsRequested (length [0, 10, 20::int]) (Some [0, 20::int]))"
    using t [THEN conjunct2, THEN mp, OF conjI [OF g conjI [OF a conjI [OF l x]]]] s
    by (simp add: numIsotopesRequested_def numTimePointsRequested_def)
  have e: "numIsotopesRequested mat_example (NameList [''Xe135'', ''total'']) = 2
         \<and> numTimePointsRequested (length [0, 10, 20::int]) (Some [0, 20::int]) = 2"
    by (simp add: numIsotopesRequested_def numTimePointsRequested_def)
  from n d a g l s c e show ?thesis by (simp add: list_all_iff)
qed

text \<open>
  Claim C4. The x axis is the days when \<^verbatim>\<open>xUnits\<close> is \<^verbatim>\<open>days\<close> and the stored category
  of that name otherwise; \<open>vals\<close> are its values (all entries, for a matrix). When at
  least one requested time point is not among them, \<^verbatim>\<open>getValues\<close> raises KeyError; the
  message is the header with the file of origin, a line break, and the printed forms of
  all the missing points, in the order requested, joined by a comma and a blank. So the
  printed form of every missing point is a substring of the message. The material after
  the call is the material before it. (\<open>str\<close> prints no requested point as the empty
  string, as Python's \<^verbatim>\<open>str\<close> does for every number.)
\<close>

theorem missing_time_points_raise_KeyError:
  assumes ax: "(xUnits = ''days'' \<and> days m = Some vals)
             \<or> (xUnits \<noteq> ''days''
                \<and> (data m xUnits = Some (Vec vals)
                   \<or> (\<exists>rows. data m xUnits = Some (Mat rows) \<and> vals = concat rows)))"
      and miss: "\<exists>t\<in>set timePoints. t \<notin> set vals"
      and str: "\<forall>t\<in>set timePoints. str t \<noteq> []"
  shows "getValues str m xUnits yUnits (Some timePoints) names0 =
           (m, Inl (KeyError (''The following times were not present in file '' @ origin m
                     @ [CHR 0x0A]
                     @ join '', '' (map str (filter (\<lambda>t. t \<notin> set vals) timePoints)))))
       \<and> (\<forall>t\<in>set timePoints. t \<notin> set vals \<longrightarrow>
             sublist (str t)
               (''The following times were not present in file '' @ origin m @ [CHR 0x0A]
                @ join '', '' (map str (filter (\<lambda>t. t \<notin> set vals) timePoints))))"
proof -
  from ax obtain valid where v: "xaxis m xUnits = Inr (Some valid)" and f: "flat valid = vals"
    by (auto simp: xaxis_def)
  from missing_time_points_aux [OF v, of timePoints str yUnits names0] miss str f
  show ?thesis by simp
qed

theorem missing_time_points_raise_KeyError_witness:
  "((''days'' = ''days'' \<and> days mat_example = Some [0, 10, 20])
      \<or> (''days'' \<noteq> ''days''
         \<and> (data mat_example ''days'' = Some (Vec [0, 10, 20])
            \<or> (\<exists>rows. data mat_example ''days'' = Some (Mat rows) \<and> [0, 10, 20] = concat rows))))
   \<and> (\<exists>t\<in>set [0, 15, 25::int]. t \<notin> set [0, 10, 20])
   \<and> list_all (\<lambda>t. str_int t \<noteq> []) [0, 15, 25]
   \<and> getValues str_int mat_example ''days'' ''adens'' (Some [0, 15, 25]) NoNames =
        (mat_example, Inl (KeyError (''The following times were not present in file demo_dep.m''
                     @ [CHR 0x0A] @ ''15, 25'')))
   \<and> sublist ''15'' (''The following times were not present in file demo_dep.m''
                     @ [CHR 0x0A] @ ''15, 25'')
   \<and> ((''burnup'' = ''days'' \<and> days mat_example = Some [0, 5, 11])
      \<or> (''burnup'' \<noteq> ''days''
         \<and> (data mat_example ''burnup'' = Some (Vec [0, 5, 11])
            \<or> (\<exists>rows. data mat_example ''burnup'' = Some (Mat rows) \<and> [0, 5, 11] = concat rows))))
   \<and> (\<exists>t\<in>set [10, 5::int]. t \<notin> set [0, 5, 11])
   \<and> list_all (\<lambda>t. str_int t \<noteq> []) [10, 5]
   \<and> getValues str_int mat_example ''burnup'' ''adens'' (Some [10, 5]) NoNames =
        (mat_example, Inl (KeyError (''The following times were not present in file demo_dep.m''
                     @ [CHR 0x0A] @ ''10'')))
   \<and> ((''adens'' = ''days'' \<and> days mat_example = Some [1, 2, 3, 4, 5, 6, 7, 8, 9])
      \<or> (''adens'' \<noteq> ''days''
         \<and> (data mat_example ''adens'' = Some (Vec [1, 2, 3, 4, 5, 6, 7, 8, 9])
            \<or> (\<exists>rows. data mat_example ''adens'' = Some (Mat rows)
                       \<and> [1, 2, 3, 4, 5, 6, 7, 8, 9] = concat rows))))
   \<and> (\<exists>t\<in>set [5, 10::int]. t \<notin> set [1, 2, 3, 4, 5, 6, 7, 8, 9])
   \<and> getValues str_int mat_example ''adens'' ''adens'' (Some [5, 10]) NoNames =
        (mat_example, Inl (KeyError (''The following times were not present in file demo_dep.m''
                     @ [CHR 0x0A] @ ''10'')))"
proof -
  have a: "(''days'' = ''days'' \<and> days mat_example = Some [0, 10, 20])
      \<or> (''days'' \<noteq> ''days''
         \<and> (data mat_example ''days'' = Some (Vec [0, 10, 20])
            \<or> (\<exists>rows. data mat_example ''days'' = Some (Mat rows) \<and> [0, 10, 20] = concat rows)))"
    by (simp add: mat_example_def)
  have b: "\<exists>t\<in>set [0, 15, 25::int]. t \<notin> set [0, 10, 20]" by simp
  have c: "\<forall>t\<in>set [0, 15, 25::int]. str_int t \<noteq> []"
    by (simp add: str_int_examples)
  have a': "(''burnup'' = ''days'' \<and> days mat_example = Some [0, 5, 11])
      \<or> (''burnup'' \<noteq> ''days''
         \<and> (data mat_example ''burnup'' = Some (Vec [0, 5, 11])
            \<or> (\<exists>rows. data mat_example ''burnup'' = Some (Mat rows) \<and> [0, 5, 11] = concat rows)))"
    by (simp add: mat_example_def)
  have b': "\<exists>t\<in>set [10, 5::int]. t \<notin> set [0, 5, 11]" by simp
  have c': "\<forall>t\<in>set [10, 5::int]. str_int t \<noteq> []"
    by (simp add: str_int_examples)
  have o: "origin mat_example = ''demo_dep.m''" by (simp add: mat_example_def)
  note r = missing_time_points_raise_KeyError
             [OF a b c, where yUnits = "''adens''" and ?names0.0 = NoNames]
  note r' = missing_time_points_raise_KeyError
             [OF a' b' c', where yUnits = "''adens''" and ?names0.0 = NoNames]
  have 1: "getValues str_int mat_example ''days'' ''adens'' (Some [0, 15, 25]) NoNames =
        (mat_example, Inl (KeyError (''The following times were not present in file demo_dep.m''
                     @ [CHR 0x0A] @ ''15, 25'')))"
    using r [THEN conjunct1] by (simp add: o str_int_examples)
  have 2: "sublist ''15'' (''The following times were not present in file demo_dep.m''
                     @ [CHR 0x0A] @ ''15, 25'')"
    using r [THEN conjunct2, rule_format, of 15] by (simp add: o str_int_examples)
  have 3: "getValues str_int mat_example ''burnup'' ''adens'' (Some [10, 5]) NoNames =
        (mat_example, Inl (KeyError (''The following times were not present in file demo_dep.m''
                     @ [CHR 0x0A] @ ''10'')))"
    using r' [THEN conjunct1] by (simp add: o str_int_examples)
  have d: "list_all (\<lambda>t. str_int t \<noteq> []) [0, 15, 25]"
    and d': "list_all (\<lambda>t. str_int t \<noteq> []) [10, 5]"
    by (simp_all add: str_int_examples)
  have a'': "(''adens'' = ''days'' \<and> days mat_example = Some [1, 2, 3, 4, 5, 6, 7, 8, 9])
      \<or> (''adens'' \<noteq> ''days''
         \<and> (data mat_example ''adens'' = Some (Vec [1, 2, 3, 4, 5, 6, 7, 8, 9])
            \<or> (\<exists>rows. data mat_example ''adens'' = Some (Mat rows)
                       \<and> [1, 2, 3, 4, 5, 6, 7, 8, 9] = concat rows)))"
    by (simp add: mat_example_def)
  have b'': "\<exists>t\<in>set [5, 10::int]. t \<notin> set [1, 2, 3, 4, 5, 6, 7, 8, 9]" by simp
  have c'': "\<forall>t\<in>set [5, 10::int]. str_int t \<noteq> []"
    by (simp add: str_int_examples)
  have 4: "getValues str_int mat_example ''adens'' ''adens'' (Some [5, 10]) NoNames =
        (mat_example, Inl (KeyError (''The following times were not present in file demo_dep.m''
                     @ [CHR 0x0A] @ ''10'')))"
    using missing_time_points_raise_KeyError
            [OF a'' b'' c'', where yUnits = "''adens''" and ?names0.0 = NoNames, THEN conjunct1]
    by (simp add: o str_int_examples)
  show ?thesis using a b d 1 2 a' b' d' 3 a'' b'' 4 by blast
qed

text \<open>
  Claim C5, as the specification states it, fails: the time points are checked
  first, so a call that asks for a name when no names are loaded and for a time point
  that is not in the axis raises KeyError, not AttributeError.
\<close>

theorem names_not_loaded_counterexample:
  "getValues str_int (mat_example\<lparr>names := None\<rparr>) ''days'' ''adens'' (Some [15])
       (NameList [''Xe135''])
     = (mat_example\<lparr>names := None\<rparr>,
        Inl (KeyError (''The following times were not present in file demo_dep.m''
                       @ [CHR 0x0A] @ ''15'')))
   \<and> \<not> is_AttributeError
         (snd (getValues str_int (mat_example\<lparr>names := None\<rparr>) ''days'' ''adens'' (Some [15])
                 (NameList [''Xe135''])))"
  by (simp add: getValues_def getValues_timeCheck_def checkTimePoints_def xaxis_def
        mat_example_def str_int_examples)

text \<open>
  Claim C5, amended. When no time points are given, or the x axis (the days when
  \<^verbatim>\<open>xUnits\<close> is \<^verbatim>\<open>days\<close>, the stored category of that name otherwise) holds every
  requested time point, a call with a non-empty list of names on a material whose
  \<^verbatim>\<open>names\<close> is \<^verbatim>\<open>None\<close> raises the AttributeError of line 151, whatever the names,
  the category asked for and the stored data are; nothing is sliced and the material is
  unchanged.
\<close>

theorem names_not_loaded_raises_AttributeError:
  assumes "isotopes \<noteq> []" and "names m = None"
      and "case timePoints of
             None \<Rightarrow> True
           | Some tps \<Rightarrow>
               ((xUnits = ''days'' \<and> days m = Some vals)
                \<or> (xUnits \<noteq> ''days''
                   \<and> (data m xUnits = Some (Vec vals)
                      \<or> (\<exists>rows. data m xUnits = Some (Mat rows) \<and> vals = concat rows))))
               \<and> set tps \<subseteq> set vals"
  shows "getValues str m xUnits yUnits timePoints (NameList isotopes) =
           (m, Inl (AttributeError (''Isotope names not stored on DepletedMaterial ''
                                    @ name m @ ''.'')))"
proof -
  have "getValues_timeCheck str m xUnits timePoints = Inr ()"
  proof (cases timePoints)
    case None
    then show ?thesis by (simp add: getValues_timeCheck_def)
  next
    case (Some tps)
    with assms(3) obtain valid where v: "xaxis m xUnits = Inr (Some valid)"
      and f: "flat valid = vals" and sub: "set tps \<subseteq> set vals"
      by (auto simp: xaxis_def)
    from sub f have "filter (\<lambda>time. time \<notin> set (flat valid)) tps = []"
      by (auto simp: filter_empty_conv)
    with Some v show ?thesis
      by (simp add: getValues_timeCheck_def checkTimePoints_def)
  qed
  with assms(1,2) show ?thesis by (simp add: getValues_def)
qed

theorem names_not_loaded_raises_AttributeError_witness:
  "[''Xe135''] \<noteq> [] \<and> names (mat_example\<lparr>names := None\<rparr>) = None
   \<and> ((''days'' = ''days'' \<and> days (mat_example\<lparr>names := None\<rparr>) = Some [0, 10, 20])
        \<or> (''days'' \<noteq> ''days''
           \<and> (data (mat_example\<lparr>names := None\<rparr>) ''days'' = Some (Vec [0, 10, 20])
              \<or> (\<exists>rows. data (mat_example\<lparr>names := None\<rparr>) ''days'' = Some (Mat rows)
                         \<and> [0, 10, 20] = concat rows))))
   \<and> set [10::int] \<subseteq> set [0, 10, 20]
   \<and> getValues str_int (mat_example\<lparr>names := None\<rparr>) ''days'' ''adens'' (Some [10])
        (NameList [''Xe135''])
      = (mat_example\<lparr>names := None\<rparr>,
         Inl (AttributeError ''Isotope names not stored on DepletedMaterial fuel.''))
   \<and> getValues str_int (mat_example\<lparr>names := None\<rparr>) ''days'' ''no such category'' None
        (NameList [''Xe135''])
      = (mat_example\<lparr>names := None\<rparr>,
         Inl (AttributeError ''Isotope names not stored on DepletedMaterial fuel.''))"
proof -
  let ?m = "mat_example\<lparr>names := None\<rparr>"
  have a: "[''Xe135''] \<noteq> []" by simp
  have b: "names ?m = None" by simp
  have x: "(''days'' = ''days'' \<and> days ?m = Some [0, 10, 20])
        \<or> (''days'' \<noteq> ''days''
           \<and> (data ?m ''days'' = Some (Vec [0, 10, 20])
              \<or> (\<exists>rows. data ?m ''days'' = Some (Mat rows) \<and> [0, 10, 20] = concat rows)))"
    by (simp add: mat_example_def)
  have s: "set [10::int] \<subseteq> set [0, 10, 20]" by simp
  have c: "case Some [10::int] of
             None \<Rightarrow> True
           | Some tps \<Rightarrow>
               ((''days'' = ''days'' \<and> days ?m = Some [0, 10, 20])
                \<or> (''days'' \<noteq> ''days''
                   \<and> (data ?m ''days'' = Some (Vec [0, 10, 20])
                      \<or> (\<exists>rows. data ?m ''days'' = Some (Mat rows) \<and> [0, 10, 20] = concat rows))))
               \<and> set tps \<subseteq> set [0, 10, 20]"
    using x s by simp
  have c': "case (None :: int list option) of
             None \<Rightarrow> True
           | Some tps \<Rightarrow>
               ((''days'' = ''days'' \<and> days ?m = Some [0, 10, 20])
                \<or> (''days'' \<noteq> ''days''
                   \<and> (data ?m ''days'' = Some (Vec [0, 10, 20])
                      \<or> (\<exists>rows. data ?m ''days'' = Some (Mat rows) \<and> [0, 10, 20] = concat rows))))
               \<and> set tps \<subseteq> set [0, 10, 20]"
    by simp
  have n: "name ?m = ''fuel''" by (simp add: mat_example_def)
  have 1: "getValues str_int ?m ''days'' ''adens'' (Some [10]) (NameList [''Xe135''])
      = (?m, Inl (AttributeError ''Isotope names not stored on DepletedMaterial fuel.''))"
    using names_not_loaded_raises_AttributeError
            [OF a b c, where str = str_int and yUnits = "''adens''"]
    by (simp add: n)
  have 2: "getValues str_int ?m ''days'' ''no such category'' None (NameList [''Xe135''])
      = (?m, Inl (AttributeError ''Isotope names not stored on DepletedMaterial fuel.''))"
    using names_not_loaded_raises_AttributeError
            [OF a b c', where str = str_int and yUnits = "''no such category''"]
    by (simp add: n)
  show ?thesis using a b x s 1 2 by blast
qed

text \<open>
  Claim C9. The branch for a matrix with one row (marked \<^verbatim>\<open># vector\<close> in the source)
  evaluates \<^verbatim>\<open>allY[colIndices]\<close>, which selects rows of the matrix, not columns. For
  the one-row \<^verbatim>\<open>adens\<close> \<open>[[1, 2, 3]]\<close> over the days 0, 10, 20: asking for the days 0
  and 20 gives the column indices 0 and 2 and raises IndexError (there is no row 2);
  without time points the result is the stored matrix itself, of shape (1, 3), not a
  one-dimensional array.
\<close>

theorem single_row_matrix_is_indexed_by_rows:
  "getValues str_int single_row_example ''days'' ''adens'' (Some [0, 20]) (NameList [''Xe135''])
     = (single_row_example, Inl IndexError)
   \<and> getValues str_int single_row_example ''days'' ''adens'' None (NameList [''Xe135''])
     = (single_row_example, Inr (Mat [[1, 2, 3]]))
   \<and> shape (Mat [[1, 2, 3::int]]) = [1, 3]"
  by (simp add: getValues_def getValues_timeCheck_def checkTimePoints_def xaxis_def
        getValues_slice_def getXSlice_def colIndices_of_def index_nd_def take_indices_def
        getIsoID_def single_row_example_def upt_rec)

section \<open>Properties of DetectorReader\<close>

subsection \<open>Auxiliary facts\<close>

lemma map_of_dict_set: "map_of (dict_set al k v) = (map_of al)(k \<mapsto> v)"
  by (induction al k v rule: dict_set.induct) auto

lemma keys_dict_set_present:
  "map_of al k \<noteq> None \<Longrightarrow> map fst (dict_set al k v) = map fst al"
  by (induction al k v rule: dict_set.induct) (auto split: if_splits)

lemma keys_dict_set_absent:
  "map_of al k = None \<Longrightarrow> dict_set al k v = al @ [(k, v)]"
  by (induction al k v rule: dict_set.induct) (auto split: if_splits)

lemma addDetector_tallies:
  assumes "addDetector ff r chunk detName binType = (r', ms, res)"
      and "map_of (detectors r) k = Some d"
  shows "\<exists>d'. map_of (detectors r') k = Some d' \<and> tallies d' = tallies d \<and> det_name d' = det_name d"
proof (cases "parse_data ff binType chunk")
  case (Inl e)
  with assms show ?thesis by (simp add: addDetector_def)
next
  case (Inr dat)
  show ?thesis
  proof (cases "map_of (detectors r) detName")
    case None
    with assms(2) have "k \<noteq> detName" by auto
    with assms Inr None show ?thesis
      by (auto simp: addDetector_def map_of_dict_set)
  next
    case (Some detector)
    with assms Inr show ?thesis
      by (cases "k = detName") (auto simp: addDetector_def map_of_dict_set)
  qed
qed

lemma read_chunk_tallies:
  assumes "read_chunk ff r chunk = (r', ms, res)"
      and "map_of (detectors r) k = Some d"
  shows "\<exists>d'. map_of (detectors r') k = Some d' \<and> tallies d' = tallies d \<and> det_name d' = det_name d"
proof (cases chunk)
  case Nil
  with assms show ?thesis by (simp add: read_chunk_def)
next
  case (Cons first rest)
  let ?s = "drop 3 (takeWhile (\<lambda>c. c \<noteq> CHR '' '') first)"
  consider (grid) "map_of (detectors r) (butlast ?s) \<noteq> None" "?s \<noteq> []"
    | (empty) "map_of (detectors r) (butlast ?s) \<noteq> None" "?s = []"
    | (tally) "map_of (detectors r) (butlast ?s) = None" "?s \<in> set (settings_names r) \<or> loadAll r"
    | (skip) "map_of (detectors r) (butlast ?s) = None" "\<not> (?s \<in> set (settings_names r) \<or> loadAll r)"
    by blast
  then show ?thesis
  proof cases
    case grid
    with assms(1) Cons have "addDetector ff r rest (butlast ?s) (Some [last ?s]) = (r', ms, res)"
      by (simp add: read_chunk_def Let_def)
    from addDetector_tallies [OF this assms(2)] show ?thesis .
  next
    case empty
    with assms Cons show ?thesis by (simp add: read_chunk_def Let_def)
  next
    case tally
    with assms(1) Cons have "addDetector ff r rest ?s None = (r', ms, res)"
      by (simp add: read_chunk_def Let_def)
    from addDetector_tallies [OF this assms(2)] show ?thesis .
  next
    case skip
    with assms Cons show ?thesis by (simp add: read_chunk_def Let_def)
  qed
qed

lemma read_chunks_tallies:
  "read_chunks ff r chunks = (r', ms, res) \<Longrightarrow> map_of (detectors r) k = Some d \<Longrightarrow>
   \<exists>d'. map_of (detectors r') k = Some d' \<and> tallies d' = tallies d \<and> det_name d' = det_name d"
proof (induction chunks arbitrary: r r' ms res d)
  case Nil
  then show ?case by simp
next
  case (Cons chunk rest)
  obtain r1 ms1 res1 where s1: "read_chunk ff r chunk = (r1, ms1, res1)"
    by (cases "read_chunk ff r chunk") auto
  from read_chunk_tallies [OF s1 Cons.prems(2)] obtain d1 where
    d1: "map_of (detectors r1) k = Some d1" "tallies d1 = tallies d" "det_name d1 = det_name d"
    by blast
  show ?case
  proof (cases res1)
    case (Inl e)
    with Cons.prems(1) s1 have "r' = r1" by simp
    with d1 show ?thesis by simp
  next
    case (Inr u)
    obtain r2 ms2 res2 where s2: "read_chunks ff r1 rest = (r2, ms2, res2)"
      by (cases "read_chunks ff r1 rest") auto
    with Cons.prems(1) s1 Inr have "r' = r2" by simp
    with Cons.IH [OF s2 d1(1)] d1 show ?thesis by auto
  qed
qed


lemma split_ws_examples:
  "split_ws ''1 1 1 1 1 1 1 1 1 1 5 0''
     = [''1'', ''1'', ''1'', ''1'', ''1'', ''1'', ''1'', ''1'', ''1'', ''1'', ''5'', ''0'']"
  "split_ws ''1 1 1 1 1 1 1 1 1 1 6 0''
     = [''1'', ''1'', ''1'', ''1'', ''1'', ''1'', ''1'', ''1'', ''1'', ''1'', ''6'', ''0'']"
  "split_ws ''1 1 1 1 1 1 1 1 1 1 7 0''
     = [''1'', ''1'', ''1'', ''1'', ''1'', ''1'', ''1'', ''1'', ''1'', ''1'', ''7'', ''0'']"
  "split_ws ''0 1 2'' = [''0'', ''1'', ''2'']"
  "split_ws ''1 2 3'' = [''1'', ''2'', ''3'']"
  "split_ws ''DETD1 = ['' = [''DETD1'', ''='', ''['']"
  "split_ws ''DETD2 = ['' = [''DETD2'', ''='', ''['']"
  "split_ws ''DETD3 = ['' = [''DETD3'', ''='', ''['']"
  "split_ws ''];'' = [''];'']"
  "split_ws [] = []"
  by (simp_all add: split_ws_def isspace_def)

lemma float_examples:
  "float_example ''0'' = Some 0" "float_example ''1'' = Some 1" "float_example ''2'' = Some 2"
  "float_example ''3'' = Some 3" "float_example ''5'' = Some 5" "float_example ''6'' = Some 6"
  "float_example ''7'' = Some 7"
  by (simp_all add: float_example_def)

lemma parse_examples:
  "parse_data float_example None [''1 1 1 1 1 1 1 1 1 1 5 0'']
     = Inr (Mat [[1, 1, 1, 1, 1, 1, 1, 1, 1, 1, 5, 0]])"
  "parse_data float_example None [''1 1 1 1 1 1 1 1 1 1 6 0'']
     = Inr (Mat [[1, 1, 1, 1, 1, 1, 1, 1, 1, 1, 6, 0]])"
  "parse_data float_example None [''1 1 1 1 1 1 1 1 1 1 7 0'']
     = Inr (Mat [[1, 1, 1, 1, 1, 1, 1, 1, 1, 1, 7, 0]])"
  "parse_data float_example (Some ''E'') [''0 1 2'', ''1 2 3''] = Inr (Mat [[0, 1, 2], [1, 2, 3]])"
  by (simp_all add: parse_data_def NUM_COLS_def split_ws_examples float_examples assign_row_def)

lemma precheck_example:
  "precheck (new_DetectorReader ''f_det0.m'' [''D1'', ''D3'']) det_lines
     = (new_DetectorReader ''f_det0.m'' [''D1'', ''D3''])\<lparr>detCount := 3\<rparr>"
  by (simp add: det_lines_def split_ws_examples sublist_code(3) new_DetectorReader_def)

lemma read_filtered_example:
  "read_detectors float_example
     ((new_DetectorReader ''f_det0.m'' [''D1'', ''D3''])\<lparr>detCount := 3\<rparr>) det_chunks
     = (reader_filtered,
        [Info ''Preparing to read f_det0.m'', Debug ''Adding detector D1'',
         Debug ''Adding detector D3'', Info ''Done''], Inr ())"
  by (simp add: read_detectors_def det_chunks_def read_chunk_def addDetector_def
        parse_examples new_DetectorReader_def reader_filtered_def new_Detector_def
        addTallyData_def Let_def)

subsection \<open>The claims on the reader\<close>

text \<open>
  Claim C3. First, a chunk whose identifier is the name \<open>base\<close> of a container that
  exists followed by one character \<open>c\<close>, and whose lines parse, stores the parsed array
  under the key \<open>c\<close> in the grids of that container: the keys of the detectors are the
  same (no second container), the container differs from the one before in its grids
  only, and its tally array is the one before. Second, a chunk that creates a container
  (its identifier, and the identifier without its last character, name no container; the
  name is requested or all names are loaded) appends a container whose tally array is
  the array parsed from that chunk. Third, whatever chunks follow and whether or not the
  scan stops on an error, a container that exists keeps its name and its tally array.
\<close>

theorem tally_set_once_grids_added:
  "(map_of (detectors r) base = Some d
      \<and> drop 3 (takeWhile (\<lambda>ch. ch \<noteq> CHR '' '') first) = base @ [c]
      \<and> parse_data float_of (Some [c]) chunk = Inr dat
    \<longrightarrow> read_chunk float_of r (first # chunk)
          = (r\<lparr>detectors :=
                 dict_set (detectors r) base (d\<lparr>grids := (grids d)(Some [c] \<mapsto> dat)\<rparr>)\<rparr>,
             [Debug (''Added bin data '' @ [c] @ '' to detector '' @ base)], Inr ())
        \<and> map fst (dict_set (detectors r) base (d\<lparr>grids := (grids d)(Some [c] \<mapsto> dat)\<rparr>))
            = map fst (detectors r)
        \<and> map_of (dict_set (detectors r) base (d\<lparr>grids := (grids d)(Some [c] \<mapsto> dat)\<rparr>))
            = (map_of (detectors r))(base \<mapsto> d\<lparr>grids := (grids d)(Some [c] \<mapsto> dat)\<rparr>)
        \<and> tallies (d\<lparr>grids := (grids d)(Some [c] \<mapsto> dat)\<rparr>) = tallies d)
   \<and> (map_of (detectors r) detName = None
      \<and> map_of (detectors r) (butlast detName) = None
      \<and> (detName \<in> set (settings_names r) \<or> loadAll r)
      \<and> drop 3 (takeWhile (\<lambda>ch. ch \<noteq> CHR '' '') first) = detName
      \<and> parse_data float_of None chunk = Inr dat
    \<longrightarrow> read_chunk float_of r (first # chunk)
          = (r\<lparr>detectors :=
                 detectors r @ [(detName, \<lparr>det_name = detName, tallies = Some dat,
                                           grids = Map.empty\<rparr>)]\<rparr>,
             [Debug (''Adding detector '' @ detName)], Inr ()))
   \<and> (read_chunks float_of r chunks = (r', ms, res) \<and> map_of (detectors r) k = Some d0
    \<longrightarrow> (case map_of (detectors r') k of
           None \<Rightarrow> False
         | Some d' \<Rightarrow> tallies d' = tallies d0 \<and> det_name d' = det_name d0))"
proof (intro conjI impI)
  assume h: "map_of (detectors r) base = Some d
      \<and> drop 3 (takeWhile (\<lambda>ch. ch \<noteq> CHR '' '') first) = base @ [c]
      \<and> parse_data float_of (Some [c]) chunk = Inr dat"
  then show "read_chunk float_of r (first # chunk)
          = (r\<lparr>detectors :=
                 dict_set (detectors r) base (d\<lparr>grids := (grids d)(Some [c] \<mapsto> dat)\<rparr>)\<rparr>,
             [Debug (''Added bin data '' @ [c] @ '' to detector '' @ base)], Inr ())"
    by (simp add: read_chunk_def addDetector_def format_binType_def)
  from h show "map fst (dict_set (detectors r) base (d\<lparr>grids := (grids d)(Some [c] \<mapsto> dat)\<rparr>))
            = map fst (detectors r)"
    by (simp add: keys_dict_set_present)
  show "map_of (dict_set (detectors r) base (d\<lparr>grids := (grids d)(Some [c] \<mapsto> dat)\<rparr>))
            = (map_of (detectors r))(base \<mapsto> d\<lparr>grids := (grids d)(Some [c] \<mapsto> dat)\<rparr>)"
    by (rule map_of_dict_set)
  show "tallies (d\<lparr>grids := (grids d)(Some [c] \<mapsto> dat)\<rparr>) = tallies d" by simp
next
  assume h: "map_of (detectors r) detName = None
      \<and> map_of (detectors r) (butlast detName) = None
      \<and> (detName \<in> set (settings_names r) \<or> loadAll r)
      \<and> drop 3 (takeWhile (\<lambda>ch. ch \<noteq> CHR '' '') first) = detName
      \<and> parse_data float_of None chunk = Inr dat"
  then show "read_chunk float_of r (first # chunk)
          = (r\<lparr>detectors :=
                 detectors r @ [(detName, \<lparr>det_name = detName, tallies = Some dat,
                                           grids = Map.empty\<rparr>)]\<rparr>,
             [Debug (''Adding detector '' @ detName)], Inr ())"
    by (auto simp: read_chunk_def addDetector_def keys_dict_set_absent new_Detector_def
          addTallyData_def)
next
  assume h: "read_chunks float_of r chunks = (r', ms, res) \<and> map_of (detectors r) k = Some d0"
  then have a: "read_chunks float_of r chunks = (r', ms, res)"
    and b: "map_of (detectors r) k = Some d0" by simp_all
  from read_chunks_tallies [OF a b]
  show "case map_of (detectors r') k of
           None \<Rightarrow> False
         | Some d' \<Rightarrow> tallies d' = tallies d0 \<and> det_name d' = det_name d0"
    by auto
qed

theorem tally_set_once_grids_added_witness:
  "map_of (detectors reader_D1) ''D1''
     = Some \<lparr>det_name = ''D1'', tallies = Some (Mat [[1, 1, 1, 1, 1, 1, 1, 1, 1, 1, 5, 0]]),
             grids = Map.empty\<rparr>
   \<and> drop 3 (takeWhile (\<lambda>ch. ch \<noteq> CHR '' '') ''DETD1E = ['') = ''D1'' @ [CHR ''E'']
   \<and> parse_data float_example (Some [CHR ''E'']) [''0 1 2'', ''1 2 3'']
       = Inr (Mat [[0, 1, 2], [1, 2, 3]])
   \<and> read_chunk float_example reader_D1 [''DETD1E = ['', ''0 1 2'', ''1 2 3'']
       = (reader_D1\<lparr>detectors :=
            [(''D1'', \<lparr>det_name = ''D1'',
                       tallies = Some (Mat [[1, 1, 1, 1, 1, 1, 1, 1, 1, 1, 5, 0]]),
                       grids = [Some ''E'' \<mapsto> Mat [[0, 1, 2], [1, 2, 3]]]\<rparr>)]\<rparr>,
          [Debug ''Added bin data E to detector D1''], Inr ())
   \<and> map_of (detectors (new_DetectorReader ''f_det0.m'' [] :: int DetectorReader)) ''D1'' = None
   \<and> map_of (detectors (new_DetectorReader ''f_det0.m'' [] :: int DetectorReader)) (butlast ''D1'') = None
   \<and> loadAll (new_DetectorReader ''f_det0.m'' [] :: int DetectorReader)
   \<and> drop 3 (takeWhile (\<lambda>ch. ch \<noteq> CHR '' '') ''DETD1 = ['') = ''D1''
   \<and> parse_data float_example None [''1 1 1 1 1 1 1 1 1 1 5 0'']
       = Inr (Mat [[1, 1, 1, 1, 1, 1, 1, 1, 1, 1, 5, 0]])
   \<and> read_chunk float_example (new_DetectorReader ''f_det0.m'' [] :: int DetectorReader)
        [''DETD1 = ['', ''1 1 1 1 1 1 1 1 1 1 5 0'']
       = (reader_D1, [Debug ''Adding detector D1''], Inr ())
   \<and> (case map_of (detectors (fst (read_chunks float_example
                                       (new_DetectorReader ''f_det0.m'' [] :: int DetectorReader) grid_chunks))) ''D1'' of
         None \<Rightarrow> False
       | Some d' \<Rightarrow> tallies d' = Some (Mat [[1, 1, 1, 1, 1, 1, 1, 1, 1, 1, 5, 0]])
                    \<and> det_name d' = ''D1'')"
proof -
  let ?d = "\<lparr>det_name = ''D1'', tallies = Some (Mat [[1, 1, 1, 1, 1, 1, 1, 1, 1, 1, 5, 0::int]]),
             grids = Map.empty\<rparr> :: int Detector"
  let ?r0 = "new_DetectorReader ''f_det0.m'' [] :: int DetectorReader"
  have a1: "map_of (detectors reader_D1) ''D1'' = Some ?d" by (simp add: reader_D1_def)
  have a2: "drop 3 (takeWhile (\<lambda>ch. ch \<noteq> CHR '' '') ''DETD1E = ['') = ''D1'' @ [CHR ''E'']"
    by simp
  have a3: "parse_data float_example (Some [CHR ''E'']) [''0 1 2'', ''1 2 3'']
       = Inr (Mat [[0, 1, 2], [1, 2, 3]])" by (rule parse_examples)
  have c1: "map_of (detectors ?r0) ''D1'' = None" by (simp add: new_DetectorReader_def)
  have c2: "map_of (detectors ?r0) (butlast ''D1'') = None" by (simp add: new_DetectorReader_def)
  have c3: "''D1'' \<in> set (settings_names ?r0) \<or> loadAll ?r0" by (simp add: new_DetectorReader_def)
  have c4: "drop 3 (takeWhile (\<lambda>ch. ch \<noteq> CHR '' '') ''DETD1 = ['') = ''D1''" by simp
  have c5: "parse_data float_example None [''1 1 1 1 1 1 1 1 1 1 5 0'']
       = Inr (Mat [[1, 1, 1, 1, 1, 1, 1, 1, 1, 1, 5, 0]])" by (rule parse_examples)
  note grid = tally_set_once_grids_added [where r = reader_D1 and base = "''D1''" and d = ?d and c = "CHR ''E''"
      and first = "''DETD1E = [''" and chunk = "[''0 1 2'', ''1 2 3'']"
      and float_of = float_example and dat = "Mat [[0, 1, 2], [1, 2, 3]]",
      THEN conjunct1, THEN mp, OF conjI [OF a1 conjI [OF a2 a3]]]
  note new = tally_set_once_grids_added [where r = ?r0 and detName = "''D1''"
      and first = "''DETD1 = [''" and chunk = "[''1 1 1 1 1 1 1 1 1 1 5 0'']"
      and float_of = float_example and dat = "Mat [[1, 1, 1, 1, 1, 1, 1, 1, 1, 1, 5, 0]]",
      THEN conjunct2, THEN conjunct1, THEN mp,
      OF conjI [OF c1 conjI [OF c2 conjI [OF c3 conjI [OF c4 c5]]]]]
  have g: "read_chunk float_example reader_D1 [''DETD1E = ['', ''0 1 2'', ''1 2 3'']
       = (reader_D1\<lparr>detectors :=
            [(''D1'', \<lparr>det_name = ''D1'',
                       tallies = Some (Mat [[1, 1, 1, 1, 1, 1, 1, 1, 1, 1, 5, 0]]),
                       grids = [Some ''E'' \<mapsto> Mat [[0, 1, 2], [1, 2, 3]]]\<rparr>)]\<rparr>,
          [Debug ''Added bin data E to detector D1''], Inr ())"
    using grid [THEN conjunct1] by (simp add: reader_D1_def)
  have n: "read_chunk float_example ?r0 [''DETD1 = ['', ''1 1 1 1 1 1 1 1 1 1 5 0'']
       = (reader_D1, [Debug ''Adding detector D1''], Inr ())"
    using new by (simp add: reader_D1_def new_DetectorReader_def)
  obtain r' ms res where rc: "read_chunks float_example reader_D1 (tl grid_chunks) = (r', ms, res)"
    by (cases "read_chunks float_example reader_D1 (tl grid_chunks)") auto
  have all: "read_chunks float_example ?r0 grid_chunks
               = (r', Debug ''Adding detector D1'' # ms, res)"
    using n rc by (simp add: grid_chunks_def)
  have inv: "case map_of (detectors r') ''D1'' of
         None \<Rightarrow> False
       | Some d' \<Rightarrow> tallies d' = tallies ?d \<and> det_name d' = det_name ?d"
    using tally_set_once_grids_added [where r = reader_D1 and chunks = "tl grid_chunks" and float_of = float_example
        and r' = r' and ms = ms and res = res and k = "''D1''" and ?d0.0 = ?d,
        THEN conjunct2, THEN conjunct2, THEN mp, OF conjI [OF rc a1]] .
  have i: "case map_of (detectors (fst (read_chunks float_example ?r0 grid_chunks))) ''D1'' of
         None \<Rightarrow> False
       | Some d' \<Rightarrow> tallies d' = Some (Mat [[1, 1, 1, 1, 1, 1, 1, 1, 1, 1, 5, 0]])
                    \<and> det_name d' = ''D1''"
    using inv by (simp add: all split: option.splits)
  have c3': "loadAll ?r0" by (simp add: new_DetectorReader_def)
  show ?thesis using a1 a2 a3 g c1 c2 c3' c4 c5 n i by blast
qed

text \<open>
  Claim C8. When the count of the precheck differs from the number of containers,
  \<^verbatim>\<open>_postcheck\<close> reports the mismatch with one error message that names the file, raises
  nothing, and returns the reader, with its detectors, as it was.
\<close>

theorem postcheck_reports_mismatch_keeps_detectors:
  assumes "detCount r \<noteq> length (detectors r)"
  shows "postcheck r =
           (r, [Error (''Did not parse expected number of detectors in file'' @ [CHR 0x0A]
                      @ filePath r)], Inr ())"
  using assms by (simp add: postcheck_def report_error_def)

theorem postcheck_reports_mismatch_keeps_detectors_witness:
  "read_detectors float_example
     (precheck (new_DetectorReader ''f_det0.m'' [''D1'', ''D3'']) det_lines) det_chunks
     = (reader_filtered,
        [Info ''Preparing to read f_det0.m'', Debug ''Adding detector D1'',
         Debug ''Adding detector D3'', Info ''Done''], Inr ())
   \<and> detCount reader_filtered = 3 \<and> length (detectors reader_filtered) = 2
   \<and> detCount reader_filtered \<noteq> length (detectors reader_filtered)
   \<and> postcheck reader_filtered =
        (reader_filtered,
         [Error (''Did not parse expected number of detectors in file'' @ [CHR 0x0A]
                 @ ''f_det0.m'')], Inr ())"
proof -
  have a: "detCount reader_filtered \<noteq> length (detectors reader_filtered)"
    by (simp add: reader_filtered_def)
  have f: "filePath reader_filtered = ''f_det0.m''" by (simp add: reader_filtered_def)
  have "postcheck reader_filtered =
        (reader_filtered,
         [Error (''Did not parse expected number of detectors in file'' @ [CHR 0x0A]
                 @ ''f_det0.m'')], Inr ())"
    using postcheck_reports_mismatch_keeps_detectors [OF a] by (simp add: f)
  moreover have "detCount reader_filtered = 3 \<and> length (detectors reader_filtered) = 2"
    by (simp add: reader_filtered_def)
  ultimately show ?thesis
    using a by (simp add: precheck_example read_filtered_example)
qed

end
